theory Spec2Isabelle
  imports Complex_Main "HOL-Library.Word" "HOL-Library.Multiset"
begin

section \<open>JavaScript values used by the sources\<close>

text \<open>
  A JavaScript string is a sequence of UTF-16 code units; \<open>length\<close> counts code units.
  Literals of the sources are ASCII and are written \<open>lit ''...''\<close>.
\<close>

type_synonym js_string = "16 word list"

definition lit :: "string \<Rightarrow> js_string" where
  "lit s = map (\<lambda>c. of_nat (of_char c)) s"

text \<open>
  \<open>String.prototype.trim\<close> removes WhiteSpace and LineTerminator code points from both
  ends: TAB, LF, VT, FF, CR, SP, NBSP, U+1680, U+2000..U+200A, LS, PS, U+202F, U+205F,
  U+3000 and the byte order mark.
\<close>

definition isWhiteSpace :: "16 word \<Rightarrow> bool" where
  "isWhiteSpace c \<longleftrightarrow>
     c = 0x09 \<or> c = 0x0A \<or> c = 0x0B \<or> c = 0x0C \<or> c = 0x0D \<or> c = 0x20 \<or> c = 0xA0 \<or>
     c = 0x1680 \<or> (0x2000 \<le> c \<and> c \<le> 0x200A) \<or> c = 0x2028 \<or> c = 0x2029 \<or>
     c = 0x202F \<or> c = 0x205F \<or> c = 0x3000 \<or> c = 0xFEFF"

definition trim :: "js_string \<Rightarrow> js_string" where
  "trim s = rev (dropWhile isWhiteSpace (rev (dropWhile isWhiteSpace s)))"

text \<open>\<open>value?.trim()\<close> on a \<open>string | null\<close>: null (and undefined) short-circuit.\<close>

definition optTrim :: "js_string option \<Rightarrow> js_string option" where
  "optTrim v = map_option trim v"

text \<open>Truthiness of a \<open>string | null | undefined\<close>: only a non-empty string is truthy.\<close>

definition truthy :: "js_string option \<Rightarrow> bool" where
  "truthy v \<longleftrightarrow> (case v of None \<Rightarrow> False | Some s \<Rightarrow> s \<noteq> [])"

text \<open>\<open>Array.prototype.indexOf\<close>: the first index holding the value, or -1.\<close>

fun indexOfFrom :: "'a list \<Rightarrow> 'a \<Rightarrow> int \<Rightarrow> int" where
  "indexOfFrom [] x i = -1"
| "indexOfFrom (y # ys) x i = (if y = x then i else indexOfFrom ys x (i + 1))"

definition indexOf :: "'a list \<Rightarrow> 'a \<Rightarrow> int" where
  "indexOf xs x = indexOfFrom xs x 0"

text \<open>\<open>xs[i]\<close>: reading outside the array gives undefined, here \<open>None\<close>.\<close>

definition elemAt :: "'a list \<Rightarrow> int \<Rightarrow> 'a option" where
  "elemAt xs i = (if 0 \<le> i \<and> i < int (length xs) then Some (xs ! nat i) else None)"

text \<open>\<open>xs.map((x, index) => ...)\<close>: the callback receives the element and its index.\<close>

fun mapIndexFrom :: "('a \<Rightarrow> int \<Rightarrow> 'b) \<Rightarrow> int \<Rightarrow> 'a list \<Rightarrow> 'b list" where
  "mapIndexFrom f i [] = []"
| "mapIndexFrom f i (x # xs) = f x i # mapIndexFrom f (i + 1) xs"

definition mapIndex :: "('a \<Rightarrow> int \<Rightarrow> 'b) \<Rightarrow> 'a list \<Rightarrow> 'b list" where
  "mapIndex f xs = mapIndexFrom f 0 xs"

text \<open>
  \<open>Array.prototype.sort(compare)\<close> is stable: elements that compare as equal keep
  their order. It is modelled by stable insertion, which puts \<open>x\<close> before the first
  \<open>y\<close> with \<open>compare(x, y) \<le> 0\<close> and applies \<open>compare\<close> to elements at two
  different positions only. For a comparator that orders the elements of the array
  consistently every stable sort returns this list. Time values are integers
  (milliseconds), so a difference of two of them is exact.
\<close>

fun insertBy :: "('a \<Rightarrow> 'a \<Rightarrow> int) \<Rightarrow> 'a \<Rightarrow> 'a list \<Rightarrow> 'a list" where
  "insertBy cmp x [] = [x]"
| "insertBy cmp x (y # ys) = (if cmp x y \<le> 0 then x # y # ys else y # insertBy cmp x ys)"

definition js_sort :: "('a \<Rightarrow> 'a \<Rightarrow> int) \<Rightarrow> 'a list \<Rightarrow> 'a list" where
  "js_sort cmp xs = foldr (insertBy cmp) xs []"

section \<open>Round sequence (lib/room-round.ts)\<close>

datatype RoomRound = WAITING | OFFERS | DESIRES | CONNECTIONS | DECISIONS | SUMMARY

definition ROOM_ROUND_SEQUENCE :: "RoomRound list" where
  "ROOM_ROUND_SEQUENCE = [WAITING, OFFERS, DESIRES, CONNECTIONS, DECISIONS, SUMMARY]"

record RoomRoundInfo =
  info_key :: RoomRound
  info_title :: js_string
  info_description :: js_string
  info_guidance :: js_string

fun ROUND_INFO :: "RoomRound \<Rightarrow> RoomRoundInfo" where
  "ROUND_INFO WAITING = \<lparr> info_key = WAITING, info_title = lit ''Waiting Room'',
     info_description = lit ''The host is getting everyone settled before the session begins.'',
     info_guidance = lit '''' \<rparr>"
| "ROUND_INFO OFFERS = \<lparr> info_key = OFFERS, info_title = lit ''Offers'',
     info_description = lit ''Participants share what they would like to offer to the circle.'',
     info_guidance = lit ''Add what you want to offer to others.'' \<rparr>"
| "ROUND_INFO DESIRES = \<lparr> info_key = DESIRES, info_title = lit ''Desires'',
     info_description =
       lit ''Participants share what support or items they would like to receive.'',
     info_guidance = lit ''Add what you desire to receive from others.'' \<rparr>"
| "ROUND_INFO CONNECTIONS = \<lparr> info_key = CONNECTIONS, info_title = lit ''Bids'',
     info_description =
       lit ''Participants place bids to receive offers or to fulfill desires from others.'',
     info_guidance = lit ''Review others' offers and desires and place bids.'' \<rparr>"
| "ROUND_INFO DECISIONS = \<lparr> info_key = DECISIONS, info_title = lit ''Decisions'',
     info_description =
       lit ''Participants review incoming bids and decide which to accept or decline.'',
     info_guidance = lit ''Review your pending bids and make decisions.'' \<rparr>"
| "ROUND_INFO SUMMARY = \<lparr> info_key = SUMMARY, info_title = lit ''Summary'',
     info_description = lit ''Review the gift circle results and share what you enjoyed.'',
     info_guidance = lit ''See a summary of the gift circle.'' \<rparr>"

definition getNextRound :: "RoomRound \<Rightarrow> RoomRound option" where
  "getNextRound current =
     (let index = indexOf ROOM_ROUND_SEQUENCE current in
      if index = -1 \<or> index = int (length ROOM_ROUND_SEQUENCE) - 1 then None
      else elemAt ROOM_ROUND_SEQUENCE (index + 1))"

definition canAdvanceRound :: "RoomRound \<Rightarrow> bool" where
  "canAdvanceRound current \<longleftrightarrow> getNextRound current \<noteq> None"

definition getRoundInfo :: "RoomRound \<Rightarrow> RoomRoundInfo" where
  "getRoundInfo r = ROUND_INFO r"

definition isRoundOrderValid :: "RoomRound \<Rightarrow> RoomRound \<Rightarrow> bool" where
  "isRoundOrderValid current next \<longleftrightarrow>
     (let currentIndex = indexOf ROOM_ROUND_SEQUENCE current;
          nextIndex = indexOf ROOM_ROUND_SEQUENCE next
      in nextIndex = currentIndex + 1)"

section \<open>Room snapshot (app/rooms/[code]/room-status-data.ts)\<close>

text \<open>
  Prisma rows as \<open>buildSnapshot\<close> receives them. A \<open>Date\<close> is its time value in
  milliseconds; \<open>toISOString\<close> and \<open>new Date(...).getTime()\<close> are inverse on the dates
  of the store, so an ISO timestamp of a summary is kept as the same integer.
\<close>

datatype MembershipRole = HOST | PARTICIPANT

datatype ItemStatus = OPEN | FULFILLED | WITHDRAWN

datatype ClaimStatus = PENDING | ACCEPTED | DECLINED | CLAIM_WITHDRAWN

record User =
  user_id :: js_string
  user_displayName :: "js_string option"

record MembershipWithUser =
  membership_id :: js_string
  membership_roomId :: js_string
  membership_userId :: js_string
  membership_role :: MembershipRole
  membership_nickname :: "js_string option"
  membership_enjoyment :: "js_string option"
  membership_readyForRound :: "RoomRound option"
  membership_createdAt :: int
  membership_user :: User

text \<open>The models \<open>Offer\<close> and \<open>Desire\<close> have the same columns.\<close>

record Item =
  item_id :: js_string
  item_roomId :: js_string
  item_authorMembershipId :: js_string
  item_title :: js_string
  item_details :: "js_string option"
  item_status :: ItemStatus
  item_createdAt :: int
  item_updatedAt :: int

record Claim =
  claim_id :: js_string
  claim_roomId :: js_string
  claim_claimerMembershipId :: js_string
  claim_offerId :: "js_string option"
  claim_desireId :: "js_string option"
  claim_status :: ClaimStatus
  claim_note :: "js_string option"
  claim_createdAt :: int
  claim_updatedAt :: int

text \<open>The client types of lib/room-types: \<open>OfferSummary\<close> and \<open>DesireSummary\<close> coincide.\<close>

record ItemSummary =
  sum_id :: js_string
  sum_roomId :: js_string
  sum_authorMembershipId :: js_string
  sum_title :: js_string
  sum_details :: "js_string option"
  sum_status :: ItemStatus
  sum_updatedAt :: int

record ClaimSummary =
  cs_id :: js_string
  cs_roomId :: js_string
  cs_claimerMembershipId :: js_string
  cs_offerId :: "js_string option"
  cs_desireId :: "js_string option"
  cs_status :: ClaimStatus
  cs_note :: "js_string option"
  cs_createdAt :: int
  cs_updatedAt :: int

record RoomMember =
  member_membershipId :: js_string
  member_userId :: js_string
  member_displayName :: "js_string option"
  member_nickname :: "js_string option"
  member_role :: MembershipRole
  member_joinedAt :: int
  member_isActive :: bool
  member_enjoyment :: "js_string option"
  member_readyForRound :: "RoomRound option"

record RoundState =
  rs_round :: RoomRound
  rs_title :: js_string
  rs_description :: js_string
  rs_guidance :: js_string
  rs_isActive :: bool
  rs_isComplete :: bool

record RoomSnapshot =
  snap_id :: js_string
  snap_code :: js_string
  snap_title :: "js_string option"
  snap_hostId :: js_string
  snap_hostName :: js_string
  snap_currentRound :: RoomRound
  snap_nextRound :: "RoomRound option"
  snap_canAdvance :: bool
  snap_rounds :: "RoundState list"
  snap_members :: "RoomMember list"
  snap_updatedAt :: int
  snap_offers :: "ItemSummary list"
  snap_desires :: "ItemSummary list"
  snap_claims :: "ClaimSummary list"

text \<open>The argument of \<open>buildSnapshot\<close>: a room with its host and its loaded relations.\<close>

record RoomWithRelations =
  room_id :: js_string
  room_code :: js_string
  room_title :: "js_string option"
  room_hostId :: js_string
  room_updatedAt :: int
  room_currentRound :: RoomRound
  room_host :: User
  room_memberships :: "MembershipWithUser list"
  room_offers :: "Item list"
  room_desires :: "Item list"
  room_claims :: "Claim list"

text \<open>
  The comparator of \<open>sortMembers\<close> answers -1 whenever its first argument is a HOST.
  With at most one HOST it orders the members consistently and the model of the sort is
  exact. With two or more it answers -1 for two hosts both ways, the order of the hosts
  is then the engine's choice, and the model (hosts in input order) does not speak for it.
\<close>

definition compareMembers :: "RoomMember \<Rightarrow> RoomMember \<Rightarrow> int" where
  "compareMembers a b =
     (if member_role a = HOST then -1
      else if member_role b = HOST then 1
      else member_joinedAt a - member_joinedAt b)"

definition sortMembers :: "RoomMember list \<Rightarrow> RoomMember list" where
  "sortMembers members = js_sort compareMembers members"

text \<open>
  \<open>toOfferSummary\<close>, \<open>toDesireSummary\<close> (lib/room-items) and \<open>toClaimSummary\<close>
  (lib/room-claims) are parameters, and so is \<open>listActiveMemberships\<close> (server/realtime),
  which gives the membership ids present in a room.
\<close>

definition mapOffers :: "(Item \<Rightarrow> ItemSummary) \<Rightarrow> Item list \<Rightarrow> ItemSummary list" where
  "mapOffers toOfferSummary offers =
     map (\<lambda>offer. toOfferSummary offer)
       (js_sort (\<lambda>a b. item_createdAt a - item_createdAt b) offers)"

definition mapDesires :: "(Item \<Rightarrow> ItemSummary) \<Rightarrow> Item list \<Rightarrow> ItemSummary list" where
  "mapDesires toDesireSummary desires =
     map (\<lambda>desire. toDesireSummary desire)
       (js_sort (\<lambda>a b. item_createdAt a - item_createdAt b) desires)"

definition mapClaims :: "(Claim \<Rightarrow> ClaimSummary) \<Rightarrow> Claim list \<Rightarrow> ClaimSummary list" where
  "mapClaims toClaimSummary claims =
     map (\<lambda>claim. toClaimSummary claim)
       (js_sort (\<lambda>a b. claim_createdAt a - claim_createdAt b) claims)"

definition toRoomMember :: "js_string set \<Rightarrow> MembershipWithUser \<Rightarrow> RoomMember" where
  "toRoomMember activeMemberships membership =
     \<lparr> member_membershipId = membership_id membership,
       member_userId = membership_userId membership,
       member_displayName = user_displayName (membership_user membership),
       member_nickname = membership_nickname membership,
       member_role = membership_role membership,
       member_joinedAt = membership_createdAt membership,
       member_isActive = (membership_id membership \<in> activeMemberships),
       member_enjoyment = membership_enjoyment membership,
       member_readyForRound = membership_readyForRound membership \<rparr>"

definition roundState :: "int \<Rightarrow> RoomRound \<Rightarrow> int \<Rightarrow> RoundState" where
  "roundState currentRoundIndex r index =
     (let info = getRoundInfo r in
      \<lparr> rs_round = r,
        rs_title = info_title info,
        rs_description = info_description info,
        rs_guidance = info_guidance info,
        rs_isActive = (index = currentRoundIndex),
        rs_isComplete = (index < currentRoundIndex) \<rparr>)"

definition buildSnapshot ::
  "(js_string \<Rightarrow> js_string set) \<Rightarrow> (Item \<Rightarrow> ItemSummary) \<Rightarrow> (Item \<Rightarrow> ItemSummary) \<Rightarrow>
   (Claim \<Rightarrow> ClaimSummary) \<Rightarrow> RoomWithRelations \<Rightarrow> RoomSnapshot" where
  "buildSnapshot listActiveMemberships toOfferSummary toDesireSummary toClaimSummary room =
     (let activeMemberships = listActiveMemberships (room_id room);
          members = sortMembers (map (toRoomMember activeMemberships) (room_memberships room));
          hostName = (case user_displayName (room_host room) of
                        Some n \<Rightarrow> n | None \<Rightarrow> lit ''Host'');
          currentRoundIndex = max (indexOf ROOM_ROUND_SEQUENCE (room_currentRound room)) 0
      in \<lparr> snap_id = room_id room,
           snap_code = room_code room,
           snap_title = room_title room,
           snap_hostId = room_hostId room,
           snap_hostName = hostName,
           snap_currentRound = room_currentRound room,
           snap_nextRound = getNextRound (room_currentRound room),
           snap_canAdvance = canAdvanceRound (room_currentRound room),
           snap_rounds = mapIndex (roundState currentRoundIndex) ROOM_ROUND_SEQUENCE,
           snap_members = members,
           snap_updatedAt = room_updatedAt room,
           snap_offers = mapOffers toOfferSummary (room_offers room),
           snap_desires = mapDesires toDesireSummary (room_desires room),
           snap_claims = mapClaims toClaimSummary (room_claims room) \<rparr>)"

section \<open>Claim gate of the bids page (app/rooms/[code]/connections/page.tsx)\<close>

text \<open>The string unions \<open>"offer" | "desire"\<close> and \<open>"giving" | "receiving"\<close>.\<close>

datatype ItemType = ItemOffer | ItemDesire

datatype CommitmentRole = RoleGiving | RoleReceiving

record ClaimGate =
  gate_allowed :: bool
  gate_reason :: "js_string option"

text \<open>
  \<open>membershipId\<close> comes from the room context and is null for a visitor who has not
  joined; \<open>!membershipId\<close> also holds for the empty string.
\<close>

definition myClaimerClaims :: "js_string option \<Rightarrow> ClaimSummary list \<Rightarrow> ClaimSummary list" where
  "myClaimerClaims membershipId roomClaims =
     (if \<not> truthy membershipId then []
      else js_sort (\<lambda>a b. cs_updatedAt a - cs_updatedAt b)
             (filter (\<lambda>claim. Some (cs_claimerMembershipId claim) = membershipId) roomClaims))"

definition canStartClaim ::
  "js_string option \<Rightarrow> ClaimSummary list \<Rightarrow> ItemSummary \<Rightarrow> ItemType \<Rightarrow> ClaimGate" where
  "canStartClaim membershipId roomClaims entity kind =
     (if \<not> truthy membershipId then
        \<lparr> gate_allowed = False, gate_reason = Some (lit ''Join the room to place bids.'') \<rparr>
      else if Some (sum_authorMembershipId entity) = membershipId then
        \<lparr> gate_allowed = False, gate_reason = Some (lit ''You cannot request your own entry.'') \<rparr>
      else if sum_status entity \<noteq> OPEN then
        \<lparr> gate_allowed = False, gate_reason = Some (lit ''This entry is closed to new bids.'') \<rparr>
      else
        (let hasPendingRequest =
           list_ex (\<lambda>c. cs_status c = PENDING \<and>
                      ((kind = ItemOffer \<and> cs_offerId c = Some (sum_id entity)) \<or>
                       (kind = ItemDesire \<and> cs_desireId c = Some (sum_id entity))))
             (myClaimerClaims membershipId roomClaims)
         in if hasPendingRequest then
              \<lparr> gate_allowed = False,
                gate_reason = Some (lit ''You already have a pending bid here.'') \<rparr>
            else \<lparr> gate_allowed = True, gate_reason = None \<rparr>))"

section \<open>Store and commitment export (server/export-summary.ts)\<close>

text \<open>
  The rows of the store as Prisma's payload types present them. A required relation
  (\<open>author\<close>, \<open>claimer\<close>, \<open>user\<close>) is never null in these types, so the row carries the
  related row and its foreign-key column is that row's id. The optional relations
  \<open>offer\<close> and \<open>desire\<close> of a claim are loaded by id; a null column and an id that no row
  of the table has both load as null.
\<close>

record ItemWithAuthor =
  iwa_id :: js_string
  iwa_roomId :: js_string
  iwa_title :: js_string
  iwa_details :: "js_string option"
  iwa_status :: ItemStatus
  iwa_author :: MembershipWithUser

record ClaimRow =
  row_id :: js_string
  row_roomId :: js_string
  row_offerId :: "js_string option"
  row_desireId :: "js_string option"
  row_status :: ClaimStatus
  row_note :: "js_string option"
  row_updatedAt :: int
  row_claimer :: MembershipWithUser

record ClaimWithRelations =
  cwr_claim :: ClaimRow
  cwr_offer :: "ItemWithAuthor option"
  cwr_desire :: "ItemWithAuthor option"

record DbRoom =
  dbroom_id :: js_string
  dbroom_code :: js_string
  dbroom_currentRound :: RoomRound

record PresenceUpdate =
  presence_roomId :: js_string
  presence_reason :: js_string

text \<open>
  The state the server code runs against: the tables, and the presence updates handed
  to the realtime collaborator so far.
\<close>

record ServerState =
  db_rooms :: "DbRoom list"
  db_memberships :: "MembershipWithUser list"
  db_offers :: "ItemWithAuthor list"
  db_desires :: "ItemWithAuthor list"
  db_claims :: "ClaimRow list"
  emittedPresenceUpdates :: "PresenceUpdate list"

definition includeRelations :: "ServerState \<Rightarrow> ClaimRow \<Rightarrow> ClaimWithRelations" where
  "includeRelations s claim =
     \<lparr> cwr_claim = claim,
       cwr_offer = (case row_offerId claim of None \<Rightarrow> None
                    | Some offerId \<Rightarrow> find (\<lambda>offer. iwa_id offer = offerId) (db_offers s)),
       cwr_desire = (case row_desireId claim of None \<Rightarrow> None
                    | Some desireId \<Rightarrow> find (\<lambda>desire. iwa_id desire = desireId) (db_desires s)) \<rparr>"

record MemberCommitmentEntry =
  entry_claimId :: js_string
  entry_itemType :: ItemType
  entry_itemTitle :: js_string
  entry_itemDetails :: "js_string option"
  entry_role :: CommitmentRole
  entry_counterpartName :: js_string
  entry_note :: "js_string option"
  entry_updatedAt :: int

record MemberCommitments =
  giving :: "MemberCommitmentEntry list"
  receiving :: "MemberCommitmentEntry list"

text \<open>The value of a \<open>string | null\<close> when it is truthy, else nothing.\<close>

definition whenTruthy :: "js_string option \<Rightarrow> js_string option" where
  "whenTruthy v = (if truthy v then v else None)"

definition formatMemberDisplayName :: "MembershipWithUser \<Rightarrow> js_string" where
  "formatMemberDisplayName member =
     (case whenTruthy (optTrim (membership_nickname member)) of
        Some nickname \<Rightarrow> nickname
      | None \<Rightarrow>
        (case whenTruthy (optTrim (user_displayName (membership_user member))) of
           Some name \<Rightarrow> name
         | None \<Rightarrow> if membership_role member = HOST then lit ''Host'' else lit ''Participant''))"

definition pushGivingEntry ::
  "MemberCommitmentEntry list \<Rightarrow> ClaimWithRelations \<Rightarrow> ItemType \<Rightarrow> js_string \<Rightarrow>
   js_string option \<Rightarrow> js_string \<Rightarrow> MemberCommitmentEntry list" where
  "pushGivingEntry target claim itemType itemTitle itemDetails counterpartName =
     target @ [\<lparr> entry_claimId = row_id (cwr_claim claim),
                 entry_itemType = itemType,
                 entry_itemTitle = itemTitle,
                 entry_itemDetails = itemDetails,
                 entry_role = RoleGiving,
                 entry_counterpartName = counterpartName,
                 entry_note = row_note (cwr_claim claim),
                 entry_updatedAt = row_updatedAt (cwr_claim claim) \<rparr>]"

definition pushReceivingEntry ::
  "MemberCommitmentEntry list \<Rightarrow> ClaimWithRelations \<Rightarrow> ItemType \<Rightarrow> js_string \<Rightarrow>
   js_string option \<Rightarrow> js_string \<Rightarrow> MemberCommitmentEntry list" where
  "pushReceivingEntry target claim itemType itemTitle itemDetails counterpartName =
     target @ [\<lparr> entry_claimId = row_id (cwr_claim claim),
                 entry_itemType = itemType,
                 entry_itemTitle = itemTitle,
                 entry_itemDetails = itemDetails,
                 entry_role = RoleReceiving,
                 entry_counterpartName = counterpartName,
                 entry_note = row_note (cwr_claim claim),
                 entry_updatedAt = row_updatedAt (cwr_claim claim) \<rparr>]"

text \<open>
  The query of \<open>collectMemberCommitments\<close>: claims of the room with status ACCEPTED in
  which the member is the claimer or the author of the loaded offer or desire, with
  their relations, ordered by \<open>updatedAt\<close> ascending (rows with equal \<open>updatedAt\<close> stay in
  table order). A read returns the state as it found it.
\<close>

definition memberClaimWhere :: "js_string \<Rightarrow> js_string \<Rightarrow> ClaimWithRelations \<Rightarrow> bool" where
  "memberClaimWhere roomId membershipId claim \<longleftrightarrow>
     row_roomId (cwr_claim claim) = roomId \<and>
     row_status (cwr_claim claim) = ACCEPTED \<and>
     (membership_id (row_claimer (cwr_claim claim)) = membershipId \<or>
      (case cwr_offer claim of None \<Rightarrow> False
       | Some offer \<Rightarrow> membership_id (iwa_author offer) = membershipId) \<or>
      (case cwr_desire claim of None \<Rightarrow> False
       | Some desire \<Rightarrow> membership_id (iwa_author desire) = membershipId))"

definition findMemberClaims ::
  "js_string \<Rightarrow> js_string \<Rightarrow> ServerState \<Rightarrow> ClaimWithRelations list \<times> ServerState" where
  "findMemberClaims roomId membershipId s =
     (sort_key (\<lambda>claim. row_updatedAt (cwr_claim claim))
        (filter (memberClaimWhere roomId membershipId)
           (map (includeRelations s) (db_claims s))), s)"

text \<open>The body of the loop over the claims found, for one claim.\<close>

definition memberCommitmentStep ::
  "js_string \<Rightarrow> ClaimWithRelations \<Rightarrow> MemberCommitments \<Rightarrow> MemberCommitments" where
  "memberCommitmentStep membershipId claim commitments =
     (let afterOffer =
        (case cwr_offer claim of
           None \<Rightarrow> commitments
         | Some offer \<Rightarrow>
           (let author = iwa_author offer;
                claimer = row_claimer (cwr_claim claim);
                c1 = (if membership_id author = membershipId
                      then commitments\<lparr> giving :=
                             pushGivingEntry (giving commitments) claim ItemOffer
                               (iwa_title offer) (iwa_details offer)
                               (formatMemberDisplayName claimer) \<rparr>
                      else commitments)
            in if membership_id claimer = membershipId
               then c1\<lparr> receiving :=
                      pushReceivingEntry (receiving c1) claim ItemOffer
                        (iwa_title offer) (iwa_details offer)
                        (formatMemberDisplayName author) \<rparr>
               else c1))
      in case cwr_desire claim of
           None \<Rightarrow> afterOffer
         | Some desire \<Rightarrow>
           (let author = iwa_author desire;
                claimer = row_claimer (cwr_claim claim);
                c2 = (if membership_id author = membershipId
                      then afterOffer\<lparr> receiving :=
                             pushReceivingEntry (receiving afterOffer) claim ItemDesire
                               (iwa_title desire) (iwa_details desire)
                               (formatMemberDisplayName claimer) \<rparr>
                      else afterOffer)
            in if membership_id claimer = membershipId
               then c2\<lparr> giving :=
                      pushGivingEntry (giving c2) claim ItemDesire
                        (iwa_title desire) (iwa_details desire)
                        (formatMemberDisplayName author) \<rparr>
               else c2))"

definition collectMemberCommitments ::
  "js_string \<Rightarrow> js_string \<Rightarrow> ServerState \<Rightarrow> MemberCommitments \<times> ServerState" where
  "collectMemberCommitments roomId membershipId s =
     (case findMemberClaims roomId membershipId s of
        (claims, s') \<Rightarrow>
          (fold (memberCommitmentStep membershipId) claims \<lparr> giving = [], receiving = [] \<rparr>, s'))"

subsection \<open>Host summary\<close>

record ParticipantInfo =
  p_membershipId :: js_string
  p_name :: js_string
  p_role :: MembershipRole
  p_enjoyment :: "js_string option"
  p_givingCount :: nat
  p_receivingCount :: nat

record CommitmentInfo =
  ci_itemTitle :: js_string
  ci_itemDetails :: "js_string option"
  ci_itemType :: ItemType
  ci_giverName :: js_string
  ci_giverMembershipId :: js_string
  ci_receiverName :: js_string
  ci_receiverMembershipId :: js_string
  ci_note :: "js_string option"

text \<open>
  \<open>enjoyment: m.enjoyment!\<close> copies the column; the filter before it keeps only rows
  where it is a non-empty string.
\<close>

record ShareInfo =
  share_membershipId :: js_string
  share_name :: js_string
  share_enjoyment :: "js_string option"

record TopCount =
  top_name :: js_string
  top_count :: nat

text \<open>
  The average is a quotient of two counts. The code divides doubles and gets the nearest
  double to the quotient; the model keeps the exact rational, and no theorem below is
  about this field's value.
\<close>

record SummaryStats =
  stats_totalParticipants :: nat
  stats_totalOffers :: nat
  stats_totalDesires :: nat
  stats_totalCommitments :: nat
  stats_averageCommitmentsPerPerson :: rat
  stats_topGiver :: "TopCount option"
  stats_topReceiver :: "TopCount option"

record HostSummaryData =
  hs_participants :: "ParticipantInfo list"
  hs_commitments :: "CommitmentInfo list"
  hs_shares :: "ShareInfo list"
  hs_stats :: SummaryStats

text \<open>
  The query of \<open>collectAllCommitments\<close>: the room with that id, if any, with its
  memberships, offers and desires, and its claims of status ACCEPTED with their
  relations, in table order.
\<close>

record RoomForSummary =
  rfs_memberships :: "MembershipWithUser list"
  rfs_offers :: "ItemWithAuthor list"
  rfs_desires :: "ItemWithAuthor list"
  rfs_claims :: "ClaimWithRelations list"

definition findRoomForSummary ::
  "js_string \<Rightarrow> ServerState \<Rightarrow> RoomForSummary option \<times> ServerState" where
  "findRoomForSummary roomId s =
     (case find (\<lambda>room. dbroom_id room = roomId) (db_rooms s) of
        None \<Rightarrow> (None, s)
      | Some room \<Rightarrow>
          (Some \<lparr> rfs_memberships =
                    filter (\<lambda>m. membership_roomId m = dbroom_id room) (db_memberships s),
                  rfs_offers = filter (\<lambda>offer. iwa_roomId offer = dbroom_id room) (db_offers s),
                  rfs_desires =
                    filter (\<lambda>desire. iwa_roomId desire = dbroom_id room) (db_desires s),
                  rfs_claims =
                    map (includeRelations s)
                      (filter (\<lambda>claim. row_roomId claim = dbroom_id room
                                 \<and> row_status claim = ACCEPTED) (db_claims s)) \<rparr>, s))"

text \<open>The two count maps and the commitments array that the loop fills.\<close>

record SummaryAcc =
  givingCounts :: "js_string \<rightharpoonup> nat"
  receivingCounts :: "js_string \<rightharpoonup> nat"
  commitments :: "CommitmentInfo list"

text \<open>\<open>counts.get(id) || 0\<close>\<close>

definition getOrZero :: "(js_string \<rightharpoonup> nat) \<Rightarrow> js_string \<Rightarrow> nat" where
  "getOrZero counts k = (case counts k of None \<Rightarrow> 0 | Some n \<Rightarrow> n)"

definition countCommitment ::
  "ItemType \<Rightarrow> ItemWithAuthor \<Rightarrow> MembershipWithUser \<Rightarrow> MembershipWithUser \<Rightarrow>
   ClaimWithRelations \<Rightarrow> SummaryAcc \<Rightarrow> SummaryAcc" where
  "countCommitment itemType item giver receiver claim acc =
     \<lparr> givingCounts =
         (givingCounts acc)(membership_id giver \<mapsto>
            getOrZero (givingCounts acc) (membership_id giver) + 1),
       receivingCounts =
         (receivingCounts acc)(membership_id receiver \<mapsto>
            getOrZero (receivingCounts acc) (membership_id receiver) + 1),
       commitments = commitments acc @
         [\<lparr> ci_itemTitle = iwa_title item,
            ci_itemDetails = iwa_details item,
            ci_itemType = itemType,
            ci_giverName = formatMemberDisplayName giver,
            ci_giverMembershipId = membership_id giver,
            ci_receiverName = formatMemberDisplayName receiver,
            ci_receiverMembershipId = membership_id receiver,
            ci_note = row_note (cwr_claim claim) \<rparr>] \<rparr>"

definition summaryStep :: "ClaimWithRelations \<Rightarrow> SummaryAcc \<Rightarrow> SummaryAcc" where
  "summaryStep claim acc =
     (let afterOffer =
        (case cwr_offer claim of
           None \<Rightarrow> acc
         | Some offer \<Rightarrow>
           (let giver = iwa_author offer;
                receiver = row_claimer (cwr_claim claim)
            in countCommitment ItemOffer offer giver receiver claim acc))
      in case cwr_desire claim of
           None \<Rightarrow> afterOffer
         | Some desire \<Rightarrow>
           (let receiver = iwa_author desire;
                giver = row_claimer (cwr_claim claim)
            in countCommitment ItemDesire desire giver receiver claim afterOffer))"

definition toParticipant :: "SummaryAcc \<Rightarrow> MembershipWithUser \<Rightarrow> ParticipantInfo" where
  "toParticipant acc m =
     \<lparr> p_membershipId = membership_id m,
       p_name = formatMemberDisplayName m,
       p_role = membership_role m,
       p_enjoyment = membership_enjoyment m,
       p_givingCount = getOrZero (givingCounts acc) (membership_id m),
       p_receivingCount = getOrZero (receivingCounts acc) (membership_id m) \<rparr>"

definition toShare :: "MembershipWithUser \<Rightarrow> ShareInfo" where
  "toShare m =
     \<lparr> share_membershipId = membership_id m,
       share_name = formatMemberDisplayName m,
       share_enjoyment = membership_enjoyment m \<rparr>"

definition topStep ::
  "ParticipantInfo \<Rightarrow> TopCount option \<times> TopCount option \<Rightarrow> TopCount option \<times> TopCount option"
  where
  "topStep p tops =
     (case tops of (topGiver, topReceiver) \<Rightarrow>
        ((if p_givingCount p > 0 \<and>
             (case topGiver of None \<Rightarrow> True | Some t \<Rightarrow> p_givingCount p > top_count t)
          then Some \<lparr> top_name = p_name p, top_count = p_givingCount p \<rparr>
          else topGiver),
         (if p_receivingCount p > 0 \<and>
             (case topReceiver of None \<Rightarrow> True | Some t \<Rightarrow> p_receivingCount p > top_count t)
          then Some \<lparr> top_name = p_name p, top_count = p_receivingCount p \<rparr>
          else topReceiver)))"

definition emptySummary :: HostSummaryData where
  "emptySummary =
     \<lparr> hs_participants = [], hs_commitments = [], hs_shares = [],
       hs_stats = \<lparr> stats_totalParticipants = 0, stats_totalOffers = 0,
                    stats_totalDesires = 0, stats_totalCommitments = 0,
                    stats_averageCommitmentsPerPerson = 0,
                    stats_topGiver = None, stats_topReceiver = None \<rparr> \<rparr>"

definition summarizeRoom :: "RoomForSummary \<Rightarrow> HostSummaryData" where
  "summarizeRoom room =
     (let acc = fold summaryStep (rfs_claims room)
                  \<lparr> givingCounts = Map.empty, receivingCounts = Map.empty, commitments = [] \<rparr>;
          participants = map (toParticipant acc) (rfs_memberships room);
          shares = map toShare
                     (filter (\<lambda>m. truthy (membership_enjoyment m)) (rfs_memberships room));
          tops = fold topStep participants (None, None);
          participantsWithCommitments =
            filter (\<lambda>p. p_givingCount p > 0 \<or> p_receivingCount p > 0) participants;
          stats =
            \<lparr> stats_totalParticipants = length participants,
              stats_totalOffers = length (rfs_offers room),
              stats_totalDesires = length (rfs_desires room),
              stats_totalCommitments = length (commitments acc),
              stats_averageCommitmentsPerPerson =
                (if length participantsWithCommitments > 0
                 then of_nat (length (commitments acc) * 2)
                        / of_nat (length participantsWithCommitments)
                 else 0),
              stats_topGiver = fst tops,
              stats_topReceiver = snd tops \<rparr>
      in \<lparr> hs_participants = participants, hs_commitments = commitments acc,
           hs_shares = shares, hs_stats = stats \<rparr>)"

definition collectAllCommitments ::
  "js_string \<Rightarrow> ServerState \<Rightarrow> HostSummaryData \<times> ServerState" where
  "collectAllCommitments roomId s =
     (case findRoomForSummary roomId s of
        (None, s') \<Rightarrow> (emptySummary, s')
      | (Some room, s') \<Rightarrow> (summarizeRoom room, s'))"

section \<open>Enjoyment endpoint (app/api/rooms/[code]/enjoyment/route.ts)\<close>

text \<open>
  What \<open>await request.json()\<close> gives the handler: it throws on malformed JSON, and
  otherwise returns a JSON value, of which the handler reads the property \<open>enjoyment\<close>.
  Reading a property of \<open>null\<close> throws a TypeError; on every other JSON value the
  property is absent (undefined, also for a stored null, which \<open>?.\<close> treats alike), a
  string, or a value of another type, on which \<open>.trim\<close> is not a function.
\<close>

datatype JsonField = FieldAbsent | FieldString js_string | FieldOther

datatype RequestBody = BodyUnparseable | BodyNull | BodyValue JsonField

text \<open>
  A request: the route parameter \<open>code\<close>, the id of the user that the identity
  collaborator resolves from the cookie, and the body.
\<close>

record EnjoymentRequest =
  req_code :: js_string
  req_userId :: js_string
  req_body :: RequestBody

datatype ResponseBody = ErrorBody js_string | SuccessBody

record JsonResponse =
  resp_body :: ResponseBody
  resp_status :: nat

datatype Thrown = TypeError

definition errorResponse :: "string \<Rightarrow> nat \<Rightarrow> JsonResponse" where
  "errorResponse message status = \<lparr> resp_body = ErrorBody (lit message), resp_status = status \<rparr>"

text \<open>\<open>prisma.roomMembership.update({ where: { id }, data: { enjoyment } })\<close>\<close>

definition updateEnjoyment :: "js_string \<Rightarrow> js_string \<Rightarrow> ServerState \<Rightarrow> ServerState" where
  "updateEnjoyment membershipId enjoyment s =
     s\<lparr> db_memberships :=
          map (\<lambda>m. if membership_id m = membershipId
                    then m\<lparr> membership_enjoyment := Some enjoyment \<rparr> else m)
            (db_memberships s) \<rparr>"

definition emitPresenceUpdate :: "PresenceUpdate \<Rightarrow> ServerState \<Rightarrow> ServerState" where
  "emitPresenceUpdate u s = s\<lparr> emittedPresenceUpdates := emittedPresenceUpdates s @ [u] \<rparr>"

text \<open>
  \<open>isValidRoomCode\<close> and \<open>normalizeRoomCode\<close> (lib/room-code) are parameters. The
  refresh of the identity token and the cookie of the response belong to the identity
  collaborator and are left out.
\<close>

text \<open>\<open>prisma.room.findUnique({ where: { code } })\<close>\<close>

definition findRoomByCode :: "js_string \<Rightarrow> ServerState \<Rightarrow> DbRoom option" where
  "findRoomByCode roomCode s = find (\<lambda>room. dbroom_code room = roomCode) (db_rooms s)"

text \<open>\<open>prisma.roomMembership.findUnique({ where: { roomId_userId: { roomId, userId } } })\<close>\<close>

definition findMembership ::
  "js_string \<Rightarrow> js_string \<Rightarrow> ServerState \<Rightarrow> MembershipWithUser option" where
  "findMembership roomId userId s =
     find (\<lambda>m. membership_roomId m = roomId \<and> membership_userId m = userId) (db_memberships s)"

definition POST ::
  "(js_string \<Rightarrow> bool) \<Rightarrow> (js_string \<Rightarrow> js_string) \<Rightarrow> EnjoymentRequest \<Rightarrow> ServerState \<Rightarrow>
   (Thrown + JsonResponse) \<times> ServerState" where
  "POST isValidRoomCode normalizeRoomCode request s =
     (let code = req_code request in
      if code = [] \<or> \<not> isValidRoomCode code then
        (Inr (errorResponse ''Invalid room code'' 400), s)
      else
        (let roomCode = normalizeRoomCode code in
         case findRoomByCode roomCode s of
           None \<Rightarrow> (Inr (errorResponse ''Room not found'' 404), s)
         | Some room \<Rightarrow>
           if dbroom_currentRound room \<noteq> DECISIONS \<and> dbroom_currentRound room \<noteq> SUMMARY then
             (Inr (errorResponse
                ''Enjoyment can only be shared during the Decisions or Summary round'' 409), s)
           else
             (case findMembership (dbroom_id room) (req_userId request) s of
                None \<Rightarrow> (Inr (errorResponse ''Not a member of this room'' 403), s)
              | Some membership \<Rightarrow>
                (case req_body request of
                   BodyUnparseable \<Rightarrow> (Inr (errorResponse ''Invalid request body'' 400), s)
                 | BodyNull \<Rightarrow> (Inl TypeError, s)
                 | BodyValue FieldOther \<Rightarrow> (Inl TypeError, s)
                 | BodyValue FieldAbsent \<Rightarrow>
                     (Inr (errorResponse ''Enjoyment is required'' 400), s)
                 | BodyValue (FieldString text) \<Rightarrow>
                   (let enjoyment = trim text in
                    if enjoyment = [] then
                      (Inr (errorResponse ''Enjoyment is required'' 400), s)
                    else if length enjoyment > 2000 then
                      (Inr (errorResponse ''Enjoyment must be 2000 characters or less'' 400), s)
                    else
                      (Inr \<lparr> resp_body = SuccessBody, resp_status = 200 \<rparr>,
                       emitPresenceUpdate
                         \<lparr> presence_roomId = dbroom_id room, presence_reason = lit ''updated'' \<rparr>
                         (updateEnjoyment (membership_id membership) enjoyment s)))))))"

section \<open>Vocabulary of the commitment theorems\<close>

text \<open>
  The entry that a member's commitments hold for a claim on an item: the member's role
  in it and the member on the other side, shown by display name.
\<close>

definition commitmentEntry ::
  "CommitmentRole \<Rightarrow> ClaimRow \<Rightarrow> ItemType \<Rightarrow> ItemWithAuthor \<Rightarrow> MembershipWithUser \<Rightarrow>
   MemberCommitmentEntry" where
  "commitmentEntry role claim itemType item counterpart =
     \<lparr> entry_claimId = row_id claim,
       entry_itemType = itemType,
       entry_itemTitle = iwa_title item,
       entry_itemDetails = iwa_details item,
       entry_role = role,
       entry_counterpartName = formatMemberDisplayName counterpart,
       entry_note = row_note claim,
       entry_updatedAt = row_updatedAt claim \<rparr>"

text \<open>The line of the host summary for a claim on an item, from giver to receiver.\<close>

definition commitmentInfo ::
  "ClaimRow \<Rightarrow> ItemType \<Rightarrow> ItemWithAuthor \<Rightarrow> MembershipWithUser \<Rightarrow> MembershipWithUser \<Rightarrow>
   CommitmentInfo" where
  "commitmentInfo claim itemType item giver receiver =
     \<lparr> ci_itemTitle = iwa_title item,
       ci_itemDetails = iwa_details item,
       ci_itemType = itemType,
       ci_giverName = formatMemberDisplayName giver,
       ci_giverMembershipId = membership_id giver,
       ci_receiverName = formatMemberDisplayName receiver,
       ci_receiverMembershipId = membership_id receiver,
       ci_note = row_note claim \<rparr>"

definition noCommitments :: MemberCommitments where
  "noCommitments = \<lparr> giving = [], receiving = [] \<rparr>"

definition noCounts :: SummaryAcc where
  "noCounts = \<lparr> givingCounts = Map.empty, receivingCounts = Map.empty, commitments = [] \<rparr>"

text \<open>The accepted claims of a room, with their relations, in table order.\<close>

definition acceptedClaims :: "js_string \<Rightarrow> ServerState \<Rightarrow> ClaimWithRelations list" where
  "acceptedClaims roomId s =
     map (includeRelations s)
       (filter (\<lambda>claim. row_roomId claim = roomId \<and> row_status claim = ACCEPTED) (db_claims s))"

text \<open>A claim neither of whose targets loads: both columns null, or dangling.\<close>

definition unresolvable :: "ServerState \<Rightarrow> ClaimRow \<Rightarrow> bool" where
  "unresolvable s claim \<longleftrightarrow>
     cwr_offer (includeRelations s claim) = None \<and> cwr_desire (includeRelations s claim) = None"

text \<open>A loaded claim at least one of whose targets is there.\<close>

definition resolved :: "ClaimWithRelations \<Rightarrow> bool" where
  "resolved x \<longleftrightarrow> \<not> (cwr_offer x = None \<and> cwr_desire x = None)"




section \<open>Example data\<close>

definition exampleToItemSummary :: "Item \<Rightarrow> ItemSummary" where
  "exampleToItemSummary i =
     \<lparr> sum_id = item_id i, sum_roomId = item_roomId i,
       sum_authorMembershipId = item_authorMembershipId i, sum_title = item_title i,
       sum_details = item_details i, sum_status = item_status i,
       sum_updatedAt = item_updatedAt i \<rparr>"

definition exampleToClaimSummary :: "Claim \<Rightarrow> ClaimSummary" where
  "exampleToClaimSummary c =
     \<lparr> cs_id = claim_id c, cs_roomId = claim_roomId c,
       cs_claimerMembershipId = claim_claimerMembershipId c, cs_offerId = claim_offerId c,
       cs_desireId = claim_desireId c, cs_status = claim_status c, cs_note = claim_note c,
       cs_createdAt = claim_createdAt c, cs_updatedAt = claim_updatedAt c \<rparr>"

definition exampleHostUser :: User where
  "exampleHostUser = \<lparr> user_id = lit ''user-host'', user_displayName = Some (lit ''Host User'') \<rparr>"

definition exampleGuestUser :: User where
  "exampleGuestUser =
     \<lparr> user_id = lit ''user-guest'', user_displayName = Some (lit ''Guest User'') \<rparr>"

definition exampleHost :: MembershipWithUser where
  "exampleHost =
     \<lparr> membership_id = lit ''m-host'', membership_roomId = lit ''room-1'',
       membership_userId = lit ''user-host'', membership_role = HOST,
       membership_nickname = Some (lit ''Host''), membership_enjoyment = None,
       membership_readyForRound = None, membership_createdAt = 600000,
       membership_user = exampleHostUser \<rparr>"

definition exampleGuest :: MembershipWithUser where
  "exampleGuest =
     \<lparr> membership_id = lit ''m-guest'', membership_roomId = lit ''room-1'',
       membership_userId = lit ''user-guest'', membership_role = PARTICIPANT,
       membership_nickname = None, membership_enjoyment = None,
       membership_readyForRound = None, membership_createdAt = 300000,
       membership_user = exampleGuestUser \<rparr>"

definition exampleOffer1 :: Item where
  "exampleOffer1 =
     \<lparr> item_id = lit ''offer-1'', item_roomId = lit ''room-1'',
       item_authorMembershipId = lit ''m-host'', item_title = lit ''First offer'',
       item_details = Some (lit ''Details''), item_status = FULFILLED,
       item_createdAt = 180000, item_updatedAt = 240000 \<rparr>"

definition exampleOffer2 :: Item where
  "exampleOffer2 =
     \<lparr> item_id = lit ''offer-2'', item_roomId = lit ''room-1'',
       item_authorMembershipId = lit ''m-guest'', item_title = lit ''Second offer'',
       item_details = None, item_status = OPEN,
       item_createdAt = 600000, item_updatedAt = 900000 \<rparr>"

definition exampleDesire1 :: Item where
  "exampleDesire1 =
     \<lparr> item_id = lit ''desire-1'', item_roomId = lit ''room-1'',
       item_authorMembershipId = lit ''m-host'', item_title = lit ''Need help'',
       item_details = None, item_status = OPEN,
       item_createdAt = 360000, item_updatedAt = 420000 \<rparr>"

definition exampleClaim1 :: Claim where
  "exampleClaim1 =
     \<lparr> claim_id = lit ''claim-1'', claim_roomId = lit ''room-1'',
       claim_claimerMembershipId = lit ''m-host'', claim_offerId = None,
       claim_desireId = Some (lit ''desire-1''), claim_status = PENDING, claim_note = None,
       claim_createdAt = 480000, claim_updatedAt = 540000 \<rparr>"

definition exampleClaim2 :: Claim where
  "exampleClaim2 =
     \<lparr> claim_id = lit ''claim-2'', claim_roomId = lit ''room-1'',
       claim_claimerMembershipId = lit ''m-guest'', claim_offerId = Some (lit ''offer-2''),
       claim_desireId = None, claim_status = CLAIM_WITHDRAWN,
       claim_note = Some (lit ''No longer needed''),
       claim_createdAt = 660000, claim_updatedAt = 960000 \<rparr>"

text \<open>A room at SUMMARY whose relations are loaded newest first and the host last.\<close>

definition exampleRoom :: RoomWithRelations where
  "exampleRoom =
     \<lparr> room_id = lit ''room-1'', room_code = lit ''vow-empowerment'', room_title = None,
       room_hostId = lit ''user-host'', room_updatedAt = 0, room_currentRound = SUMMARY,
       room_host = exampleHostUser, room_memberships = [exampleGuest, exampleHost],
       room_offers = [exampleOffer2, exampleOffer1], room_desires = [exampleDesire1],
       room_claims = [exampleClaim2, exampleClaim1] \<rparr>"

definition examplePresence :: "js_string \<Rightarrow> js_string set" where
  "examplePresence roomId = (if roomId = lit ''room-1'' then {lit ''m-host''} else {})"

definition exampleSnapshot :: RoomSnapshot where
  "exampleSnapshot =
     buildSnapshot examplePresence exampleToItemSummary exampleToItemSummary
       exampleToClaimSummary exampleRoom"

definition exampleBread :: ItemSummary where
  "exampleBread =
     \<lparr> sum_id = lit ''offer-1'', sum_roomId = lit ''room-1'',
       sum_authorMembershipId = lit ''m-host'', sum_title = lit ''Fresh baked bread'',
       sum_details = None, sum_status = OPEN, sum_updatedAt = 0 \<rparr>"

definition examplePendingBid :: ClaimSummary where
  "examplePendingBid =
     \<lparr> cs_id = lit ''claim-1'', cs_roomId = lit ''room-1'',
       cs_claimerMembershipId = lit ''m-guest'', cs_offerId = Some (lit ''offer-1''),
       cs_desireId = None, cs_status = PENDING, cs_note = Some (lit ''Please''),
       cs_createdAt = 0, cs_updatedAt = 0 \<rparr>"

text \<open>
  A store for the server-side examples: room-1 in DECISIONS with a host, a guest and a
  third member, room-2 still in OFFERS. The host offers bread, the guest wishes for help.
\<close>

definition exampleThird :: MembershipWithUser where
  "exampleThird =
     \<lparr> membership_id = lit ''m-third'', membership_roomId = lit ''room-1'',
       membership_userId = lit ''user-third'', membership_role = PARTICIPANT,
       membership_nickname = Some (lit '' Cleo ''), membership_enjoyment = None,
       membership_readyForRound = None, membership_createdAt = 900000,
       membership_user = \<lparr> user_id = lit ''user-third'', user_displayName = None \<rparr> \<rparr>"

definition exampleBreadOffer :: ItemWithAuthor where
  "exampleBreadOffer =
     \<lparr> iwa_id = lit ''offer-1'', iwa_roomId = lit ''room-1'',
       iwa_title = lit ''Fresh baked bread'', iwa_details = None, iwa_status = OPEN,
       iwa_author = exampleHost \<rparr>"

definition exampleHelpDesire :: ItemWithAuthor where
  "exampleHelpDesire =
     \<lparr> iwa_id = lit ''desire-1'', iwa_roomId = lit ''room-1'',
       iwa_title = lit ''Need moving help'', iwa_details = Some (lit ''Saturday''),
       iwa_status = OPEN, iwa_author = exampleGuest \<rparr>"

text \<open>The guest's accepted claim on the bread.\<close>

definition exampleClaimA :: ClaimRow where
  "exampleClaimA =
     \<lparr> row_id = lit ''claim-a'', row_roomId = lit ''room-1'',
       row_offerId = Some (lit ''offer-1''), row_desireId = None, row_status = ACCEPTED,
       row_note = Some (lit ''Please''), row_updatedAt = 20, row_claimer = exampleGuest \<rparr>"

text \<open>The third member's declined claim on the wish.\<close>

definition exampleClaimB :: ClaimRow where
  "exampleClaimB =
     \<lparr> row_id = lit ''claim-b'', row_roomId = lit ''room-1'',
       row_offerId = None, row_desireId = Some (lit ''desire-1''), row_status = DECLINED,
       row_note = None, row_updatedAt = 10, row_claimer = exampleThird \<rparr>"

text \<open>An accepted claim of the guest whose offer is no longer in the table.\<close>

definition exampleClaimC :: ClaimRow where
  "exampleClaimC =
     \<lparr> row_id = lit ''claim-c'', row_roomId = lit ''room-1'',
       row_offerId = Some (lit ''offer-gone''), row_desireId = None, row_status = ACCEPTED,
       row_note = None, row_updatedAt = 5, row_claimer = exampleGuest \<rparr>"

text \<open>An accepted claim of the third member that points at the bread and at the wish.\<close>

definition exampleClaimD :: ClaimRow where
  "exampleClaimD =
     \<lparr> row_id = lit ''claim-d'', row_roomId = lit ''room-1'',
       row_offerId = Some (lit ''offer-1''), row_desireId = Some (lit ''desire-1''),
       row_status = ACCEPTED, row_note = None, row_updatedAt = 30,
       row_claimer = exampleThird \<rparr>"


definition exampleState :: ServerState where
  "exampleState =
     \<lparr> db_rooms =
         [\<lparr> dbroom_id = lit ''room-1'', dbroom_code = lit ''vow-empowerment'',
            dbroom_currentRound = DECISIONS \<rparr>,
          \<lparr> dbroom_id = lit ''room-2'', dbroom_code = lit ''gift-generosity'',
            dbroom_currentRound = OFFERS \<rparr>],
       db_memberships = [exampleHost, exampleGuest, exampleThird],
       db_offers = [exampleBreadOffer],
       db_desires = [exampleHelpDesire],
       db_claims = [exampleClaimA, exampleClaimB, exampleClaimC],
       emittedPresenceUpdates = [] \<rparr>"

text \<open>The guest shares an enjoyment in room-1; the text is padded with blanks.\<close>

definition exampleRequest :: EnjoymentRequest where
  "exampleRequest =
     \<lparr> req_code = lit ''vow-empowerment'', req_userId = lit ''user-guest'',
       req_body = BodyValue (FieldString (lit ''  Loved it  '')) \<rparr>"

definition exampleValidCode :: "js_string \<Rightarrow> bool" where
  "exampleValidCode code \<longleftrightarrow> 3 \<le> length code"

definition exampleNormCode :: "js_string \<Rightarrow> js_string" where
  "exampleNormCode code = code"

section \<open>Theorems: round sequence\<close>

lemma indexOf_sequence:
  "indexOf ROOM_ROUND_SEQUENCE WAITING = 0"
  "indexOf ROOM_ROUND_SEQUENCE OFFERS = 1"
  "indexOf ROOM_ROUND_SEQUENCE DESIRES = 2"
  "indexOf ROOM_ROUND_SEQUENCE CONNECTIONS = 3"
  "indexOf ROOM_ROUND_SEQUENCE DECISIONS = 4"
  "indexOf ROOM_ROUND_SEQUENCE SUMMARY = 5"
  by (simp_all add: indexOf_def ROOM_ROUND_SEQUENCE_def)

lemma getNextRound_table:
  "getNextRound WAITING = Some OFFERS"
  "getNextRound OFFERS = Some DESIRES"
  "getNextRound DESIRES = Some CONNECTIONS"
  "getNextRound CONNECTIONS = Some DECISIONS"
  "getNextRound DECISIONS = Some SUMMARY"
  "getNextRound SUMMARY = None"
  by (simp_all add: getNextRound_def indexOf_sequence elemAt_def, simp_all add: ROOM_ROUND_SEQUENCE_def)

text \<open>
  C5. Over the six rounds WAITING, OFFERS, DESIRES, CONNECTIONS, DECISIONS, SUMMARY,
  which the sequence lists once each, \<open>getNextRound\<close> of the round at position \<open>i\<close> is the
  round at position \<open>i + 1\<close>; it is null exactly at SUMMARY, the last round; and
  \<open>canAdvanceRound\<close> holds exactly when \<open>getNextRound\<close> is not null.
\<close>

theorem getNextRound_follows_sequence:
  "distinct ROOM_ROUND_SEQUENCE \<and> set ROOM_ROUND_SEQUENCE = UNIV
   \<and> ROOM_ROUND_SEQUENCE = [WAITING, OFFERS, DESIRES, CONNECTIONS, DECISIONS, SUMMARY]
   \<and> (\<forall>i. i + 1 < length ROOM_ROUND_SEQUENCE \<longrightarrow>
          getNextRound (ROOM_ROUND_SEQUENCE ! i) = Some (ROOM_ROUND_SEQUENCE ! (i + 1)))
   \<and> (\<forall>r. getNextRound r = None \<longleftrightarrow> r = SUMMARY)
   \<and> last ROOM_ROUND_SEQUENCE = SUMMARY
   \<and> (\<forall>r. canAdvanceRound r \<longleftrightarrow> getNextRound r \<noteq> None)"
proof -
  have univ: "set ROOM_ROUND_SEQUENCE = UNIV"
  proof
    show "UNIV \<subseteq> set ROOM_ROUND_SEQUENCE"
    proof
      fix r :: RoomRound
      show "r \<in> set ROOM_ROUND_SEQUENCE"
        by (cases r) (simp_all add: ROOM_ROUND_SEQUENCE_def)
    qed
  qed simp
  have step: "getNextRound (ROOM_ROUND_SEQUENCE ! i) = Some (ROOM_ROUND_SEQUENCE ! (i + 1))"
    if "i + 1 < length ROOM_ROUND_SEQUENCE" for i
  proof -
    from that have "i < 5" by (simp add: ROOM_ROUND_SEQUENCE_def)
    then consider "i = 0" | "i = 1" | "i = 2" | "i = 3" | "i = 4" by linarith
    then show ?thesis
      by cases (simp_all add: ROOM_ROUND_SEQUENCE_def getNextRound_table)
  qed
  have null: "getNextRound r = None \<longleftrightarrow> r = SUMMARY" for r
    by (cases r) (simp_all add: getNextRound_table)
  show ?thesis
    using univ step null
    by (simp add: canAdvanceRound_def) (simp add: ROOM_ROUND_SEQUENCE_def)
qed

theorem getNextRound_follows_sequence_witness:
  "(4::nat) + 1 < length ROOM_ROUND_SEQUENCE
   \<and> getNextRound DECISIONS = Some SUMMARY
   \<and> getNextRound SUMMARY = None
   \<and> \<not> canAdvanceRound SUMMARY \<and> canAdvanceRound DECISIONS"
proof -
  have len: "(4::nat) + 1 < length ROOM_ROUND_SEQUENCE"
    by (simp add: ROOM_ROUND_SEQUENCE_def)
  from getNextRound_follows_sequence
  have nxt: "\<And>i. i + 1 < length ROOM_ROUND_SEQUENCE \<Longrightarrow>
          getNextRound (ROOM_ROUND_SEQUENCE ! i) = Some (ROOM_ROUND_SEQUENCE ! (i + 1))"
    and nul: "\<And>r. getNextRound r = None \<longleftrightarrow> r = SUMMARY"
    and adv: "\<And>r. canAdvanceRound r \<longleftrightarrow> getNextRound r \<noteq> None"
    by blast+
  from nxt [OF len] have "getNextRound DECISIONS = Some SUMMARY"
    by (simp add: ROOM_ROUND_SEQUENCE_def)
  with len nul [of SUMMARY] adv [of SUMMARY] adv [of DECISIONS] show ?thesis
    by simp
qed

section \<open>Theorems: room snapshot\<close>

lemma snap_rounds_eq:
  "snap_rounds (buildSnapshot la tos tds tcs room) =
     mapIndex (roundState (indexOf ROOM_ROUND_SEQUENCE (room_currentRound room)))
       ROOM_ROUND_SEQUENCE"
proof -
  have "0 \<le> indexOf ROOM_ROUND_SEQUENCE (room_currentRound room)"
    by (cases "room_currentRound room") (simp_all add: indexOf_sequence)
  then show ?thesis
    by (simp add: buildSnapshot_def Let_def max_def)
qed

lemma snap_rounds_unfold:
  "snap_rounds (buildSnapshot la tos tds tcs room) =
     (let k = indexOf ROOM_ROUND_SEQUENCE (room_currentRound room) in
      [roundState k WAITING 0, roundState k OFFERS 1, roundState k DESIRES 2,
       roundState k CONNECTIONS 3, roundState k DECISIONS 4, roundState k SUMMARY 5])"
  by (simp add: snap_rounds_eq mapIndex_def ROOM_ROUND_SEQUENCE_def Let_def)

text \<open>
  C6. The snapshot's rounds array has one entry per round of the fixed sequence, in
  order; an entry is active exactly when its round is the room's current round and
  complete exactly when its round lies strictly before the current round in the
  sequence. At SUMMARY the five earlier rounds are complete and only SUMMARY is active.
\<close>

theorem buildSnapshot_rounds:
  "map rs_round (snap_rounds (buildSnapshot la tos tds tcs room)) = ROOM_ROUND_SEQUENCE
   \<and> (\<forall>e \<in> set (snap_rounds (buildSnapshot la tos tds tcs room)).
        (rs_isActive e \<longleftrightarrow> rs_round e = room_currentRound room)
        \<and> (rs_isComplete e \<longleftrightarrow>
             indexOf ROOM_ROUND_SEQUENCE (rs_round e)
               < indexOf ROOM_ROUND_SEQUENCE (room_currentRound room)))
   \<and> (room_currentRound room = SUMMARY \<longrightarrow>
        map (\<lambda>e. (rs_round e, rs_isActive e, rs_isComplete e))
          (snap_rounds (buildSnapshot la tos tds tcs room))
        = [(WAITING, False, True), (OFFERS, False, True), (DESIRES, False, True),
           (CONNECTIONS, False, True), (DECISIONS, False, True), (SUMMARY, True, False)])"
  by (cases "room_currentRound room")
    (simp_all add: snap_rounds_unfold Let_def roundState_def indexOf_sequence,
     simp_all add: ROOM_ROUND_SEQUENCE_def)

theorem buildSnapshot_rounds_witness:
  "room_currentRound exampleRoom = SUMMARY
   \<and> map (\<lambda>e. (rs_round e, rs_isActive e, rs_isComplete e)) (snap_rounds exampleSnapshot)
     = [(WAITING, False, True), (OFFERS, False, True), (DESIRES, False, True),
        (CONNECTIONS, False, True), (DECISIONS, False, True), (SUMMARY, True, False)]
   \<and> map rs_round (snap_rounds exampleSnapshot) = ROOM_ROUND_SEQUENCE"
proof -
  have cur: "room_currentRound exampleRoom = SUMMARY"
    by (simp add: exampleRoom_def)
  note rounds = buildSnapshot_rounds [where la = examplePresence and tos = exampleToItemSummary
      and tds = exampleToItemSummary and tcs = exampleToClaimSummary and room = exampleRoom,
      folded exampleSnapshot_def]
  from rounds cur show ?thesis
    by blast
qed

subsection \<open>Sorting by a time value\<close>

lemma insertBy_difference:
  fixes f :: "'a \<Rightarrow> int"
  shows "insertBy (\<lambda>a b. f a - f b) x ys = insort_key f x ys"
  by (induction ys) simp_all

lemma js_sort_difference:
  fixes f :: "'a \<Rightarrow> int"
  shows "js_sort (\<lambda>a b. f a - f b) xs = sort_key f xs"
proof -
  have "insertBy (\<lambda>a b. f a - f b) = insort_key f"
    by (intro ext) (rule insertBy_difference)
  then show ?thesis
    by (simp add: js_sort_def sort_key_def)
qed

lemma js_sort_difference_sorted:
  fixes f :: "'a \<Rightarrow> int"
  shows "sorted (map f (js_sort (\<lambda>a b. f a - f b) xs))"
    and "mset (js_sort (\<lambda>a b. f a - f b) xs) = mset xs"
  by (simp_all add: js_sort_difference)

text \<open>
  C7. Whatever the order of the room's offers, desires and claims, each list of the
  snapshot is the image, under the summary conversion, of the same rows arranged by
  creation time ascending.
\<close>

theorem buildSnapshot_lists_sorted_by_creation:
  "(\<exists>os. snap_offers (buildSnapshot la tos tds tcs room) = map tos os
      \<and> sorted (map item_createdAt os) \<and> mset os = mset (room_offers room))
   \<and> (\<exists>ds. snap_desires (buildSnapshot la tos tds tcs room) = map tds ds
      \<and> sorted (map item_createdAt ds) \<and> mset ds = mset (room_desires room))
   \<and> (\<exists>cs. snap_claims (buildSnapshot la tos tds tcs room) = map tcs cs
      \<and> sorted (map claim_createdAt cs) \<and> mset cs = mset (room_claims room))"
proof (intro conjI)
  show "\<exists>os. snap_offers (buildSnapshot la tos tds tcs room) = map tos os
      \<and> sorted (map item_createdAt os) \<and> mset os = mset (room_offers room)"
    by (rule exI [of _ "js_sort (\<lambda>a b. item_createdAt a - item_createdAt b) (room_offers room)"])
      (simp add: buildSnapshot_def Let_def mapOffers_def js_sort_difference_sorted)
  show "\<exists>ds. snap_desires (buildSnapshot la tos tds tcs room) = map tds ds
      \<and> sorted (map item_createdAt ds) \<and> mset ds = mset (room_desires room)"
    by (rule exI [of _ "js_sort (\<lambda>a b. item_createdAt a - item_createdAt b) (room_desires room)"])
      (simp add: buildSnapshot_def Let_def mapDesires_def js_sort_difference_sorted)
  show "\<exists>cs. snap_claims (buildSnapshot la tos tds tcs room) = map tcs cs
      \<and> sorted (map claim_createdAt cs) \<and> mset cs = mset (room_claims room)"
    by (rule exI [of _ "js_sort (\<lambda>a b. claim_createdAt a - claim_createdAt b) (room_claims room)"])
      (simp add: buildSnapshot_def Let_def mapClaims_def js_sort_difference_sorted)
qed

theorem buildSnapshot_lists_sorted_by_creation_witness:
  "(\<exists>os. snap_offers exampleSnapshot = map exampleToItemSummary os
      \<and> sorted (map item_createdAt os) \<and> mset os = mset [exampleOffer2, exampleOffer1])
   \<and> (\<exists>cs. snap_claims exampleSnapshot = map exampleToClaimSummary cs
      \<and> sorted (map claim_createdAt cs) \<and> mset cs = mset [exampleClaim2, exampleClaim1])
   \<and> map sum_id (snap_offers exampleSnapshot) = [lit ''offer-1'', lit ''offer-2'']
   \<and> map cs_id (snap_claims exampleSnapshot) = [lit ''claim-1'', lit ''claim-2'']"
proof -
  have ord: "map sum_id (snap_offers exampleSnapshot) = [lit ''offer-1'', lit ''offer-2'']"
    "map cs_id (snap_claims exampleSnapshot) = [lit ''claim-1'', lit ''claim-2'']"
    by (simp_all add: exampleSnapshot_def buildSnapshot_def Let_def mapOffers_def mapClaims_def
        js_sort_def exampleRoom_def exampleOffer1_def exampleOffer2_def exampleClaim1_def
        exampleClaim2_def exampleToItemSummary_def exampleToClaimSummary_def)
  from buildSnapshot_lists_sorted_by_creation [where la = examplePresence
      and tos = exampleToItemSummary and tds = exampleToItemSummary
      and tcs = exampleToClaimSummary and room = exampleRoom] ord
  show ?thesis
    unfolding exampleSnapshot_def by (simp add: exampleRoom_def)
qed

subsection \<open>Sorting the roster\<close>










section \<open>Theorems: claim gate\<close>

lemma set_myClaimerClaims:
  "truthy (Some m) \<Longrightarrow>
     set (myClaimerClaims (Some m) roomClaims) = {c \<in> set roomClaims. cs_claimerMembershipId c = m}"
  by (auto simp: myClaimerClaims_def js_sort_difference)

text \<open>
  C4. For a member who has joined (the page holds a non-empty membership id), the gate
  allows starting a claim on an item exactly when the item is OPEN, the member is not
  its author, and the member has no PENDING claim on that same item; otherwise it
  rejects with a reason. A visitor without a membership id is always rejected.
\<close>

theorem canStartClaim_allowed_iff:
  "(m \<noteq> [] \<longrightarrow>
      (gate_allowed (canStartClaim (Some m) roomClaims entity kind) \<longleftrightarrow>
         sum_status entity = OPEN
         \<and> m \<noteq> sum_authorMembershipId entity
         \<and> \<not> (\<exists>c \<in> set roomClaims.
                 cs_claimerMembershipId c = m \<and> cs_status c = PENDING
                 \<and> (case kind of ItemOffer \<Rightarrow> cs_offerId c = Some (sum_id entity)
                     | ItemDesire \<Rightarrow> cs_desireId c = Some (sum_id entity)))))
   \<and> (gate_allowed (canStartClaim (Some m) roomClaims entity kind) \<longleftrightarrow>
        gate_reason (canStartClaim (Some m) roomClaims entity kind) = None)
   \<and> \<not> gate_allowed (canStartClaim None roomClaims entity kind)
   \<and> \<not> gate_allowed (canStartClaim (Some []) roomClaims entity kind)"
proof -
  have joined: "gate_allowed (canStartClaim (Some m) roomClaims entity kind) \<longleftrightarrow>
         sum_status entity = OPEN
         \<and> m \<noteq> sum_authorMembershipId entity
         \<and> \<not> (\<exists>c \<in> set roomClaims.
                 cs_claimerMembershipId c = m \<and> cs_status c = PENDING
                 \<and> (case kind of ItemOffer \<Rightarrow> cs_offerId c = Some (sum_id entity)
                     | ItemDesire \<Rightarrow> cs_desireId c = Some (sum_id entity)))"
    if "m \<noteq> []"
  proof -
    from that have t: "truthy (Some m)" by (simp add: truthy_def)
    show ?thesis
      by (cases kind)
        (auto simp: canStartClaim_def Let_def t list_ex_iff set_myClaimerClaims [OF t])
  qed
  have reason: "gate_allowed (canStartClaim (Some m) roomClaims entity kind) \<longleftrightarrow>
        gate_reason (canStartClaim (Some m) roomClaims entity kind) = None"
    by (simp add: canStartClaim_def Let_def)
  have visitor: "\<not> gate_allowed (canStartClaim None roomClaims entity kind)"
    "\<not> gate_allowed (canStartClaim (Some []) roomClaims entity kind)"
    by (simp_all add: canStartClaim_def truthy_def)
  from joined reason visitor show ?thesis by blast
qed

theorem canStartClaim_allowed_iff_witness:
  "lit ''m-guest'' \<noteq> []
   \<and> gate_allowed (canStartClaim (Some (lit ''m-guest'')) [] exampleBread ItemOffer)
   \<and> \<not> gate_allowed (canStartClaim (Some (lit ''m-guest'')) [examplePendingBid] exampleBread ItemOffer)
   \<and> \<not> gate_allowed (canStartClaim (Some (lit ''m-host'')) [] exampleBread ItemOffer)
   \<and> \<not> gate_allowed
        (canStartClaim (Some (lit ''m-guest'')) [] (exampleBread\<lparr> sum_status := FULFILLED \<rparr>) ItemOffer)"
proof -
  have guest: "lit ''m-guest'' \<noteq> []" and host: "lit ''m-host'' \<noteq> []"
    and differ: "lit ''m-guest'' \<noteq> lit ''m-host''"
    by (simp_all add: lit_def)
  have a: "gate_allowed (canStartClaim (Some (lit ''m-guest'')) [] exampleBread ItemOffer)"
    using canStartClaim_allowed_iff [where m = "lit ''m-guest''" and roomClaims = "[]"
        and entity = exampleBread and kind = ItemOffer] guest differ
    by (simp add: exampleBread_def)
  have b: "\<not> gate_allowed
      (canStartClaim (Some (lit ''m-guest'')) [examplePendingBid] exampleBread ItemOffer)"
    using canStartClaim_allowed_iff [where m = "lit ''m-guest''"
        and roomClaims = "[examplePendingBid]" and entity = exampleBread and kind = ItemOffer] guest
    by (simp add: exampleBread_def examplePendingBid_def)
  have c: "\<not> gate_allowed (canStartClaim (Some (lit ''m-host'')) [] exampleBread ItemOffer)"
    using canStartClaim_allowed_iff [where m = "lit ''m-host''" and roomClaims = "[]"
        and entity = exampleBread and kind = ItemOffer] host
    by (simp add: exampleBread_def)
  have d: "\<not> gate_allowed
      (canStartClaim (Some (lit ''m-guest'')) [] (exampleBread\<lparr> sum_status := FULFILLED \<rparr>) ItemOffer)"
    using canStartClaim_allowed_iff [where m = "lit ''m-guest''" and roomClaims = "[]"
        and entity = "exampleBread\<lparr> sum_status := FULFILLED \<rparr>" and kind = ItemOffer] guest
    by simp
  from guest a b c d show ?thesis by blast
qed

section \<open>Theorems: enjoyment endpoint\<close>

lemma updateEnjoyment_stores:
  assumes "findMembership r u s = Some membership"
  shows "map_option membership_enjoyment
           (findMembership r u (updateEnjoyment (membership_id membership) e s))
         = Some (Some e)"
proof -
  have "map_option membership_enjoyment
          (find (\<lambda>m. membership_roomId m = r \<and> membership_userId m = u)
             (map (\<lambda>m. if membership_id m = membership_id membership
                        then m\<lparr> membership_enjoyment := Some e \<rparr> else m) ms))
        = Some (Some e)"
    if "find (\<lambda>m. membership_roomId m = r \<and> membership_userId m = u) ms = Some membership"
    for ms
    using that by (induction ms) (auto split: if_splits)
  from this [of "db_memberships s"] assms show ?thesis
    by (simp add: updateEnjoyment_def findMembership_def)
qed

lemma updateEnjoyment_others:
  "filter (\<lambda>m. membership_id m \<noteq> i) (db_memberships (updateEnjoyment i e s))
   = filter (\<lambda>m. membership_id m \<noteq> i) (db_memberships s)"
proof -
  have "filter (\<lambda>m. membership_id m \<noteq> i)
          (map (\<lambda>m. if membership_id m = i then m\<lparr> membership_enjoyment := Some e \<rparr> else m) ms)
        = filter (\<lambda>m. membership_id m \<noteq> i) ms" for ms
    by (induction ms) simp_all
  then show ?thesis
    by (simp add: updateEnjoyment_def)
qed

text \<open>
  C9. For a request with a valid room code the handler answers, in this order: 404 when
  no room has the code; 409 (conflict) when the room's current round is neither
  DECISIONS nor SUMMARY; 403 when the caller has no membership in the room; 400 when
  the submitted text is absent, empty after trimming, or longer than 2000 code units
  after trimming; and otherwise 200, storing the trimmed text on the caller's
  membership and leaving the other memberships as they were. Every rejection leaves the
  state unchanged, and a response with status 200 is given only in DECISIONS or SUMMARY.
\<close>

theorem enjoyment_POST_gate:
  assumes "req_code request \<noteq> []" and "validCode (req_code request)"
  shows
    "(findRoomByCode (normCode (req_code request)) s = None \<longrightarrow>
        POST validCode normCode request s = (Inr (errorResponse ''Room not found'' 404), s))
     \<and> (\<forall>room.
          findRoomByCode (normCode (req_code request)) s = Some room
          \<and> dbroom_currentRound room \<noteq> DECISIONS \<and> dbroom_currentRound room \<noteq> SUMMARY \<longrightarrow>
          POST validCode normCode request s =
            (Inr (errorResponse
               ''Enjoyment can only be shared during the Decisions or Summary round'' 409), s))
     \<and> (\<forall>room.
          findRoomByCode (normCode (req_code request)) s = Some room
          \<and> (dbroom_currentRound room = DECISIONS \<or> dbroom_currentRound room = SUMMARY)
          \<and> findMembership (dbroom_id room) (req_userId request) s = None \<longrightarrow>
          POST validCode normCode request s = (Inr (errorResponse ''Not a member of this room'' 403), s))
     \<and> (\<forall>room membership input.
          findRoomByCode (normCode (req_code request)) s = Some room
          \<and> (dbroom_currentRound room = DECISIONS \<or> dbroom_currentRound room = SUMMARY)
          \<and> findMembership (dbroom_id room) (req_userId request) s = Some membership
          \<and> (req_body request = BodyValue FieldAbsent
             \<or> req_body request = BodyValue (FieldString input) \<and> trim input = []) \<longrightarrow>
          POST validCode normCode request s = (Inr (errorResponse ''Enjoyment is required'' 400), s))
     \<and> (\<forall>room membership input.
          findRoomByCode (normCode (req_code request)) s = Some room
          \<and> (dbroom_currentRound room = DECISIONS \<or> dbroom_currentRound room = SUMMARY)
          \<and> findMembership (dbroom_id room) (req_userId request) s = Some membership
          \<and> req_body request = BodyValue (FieldString input) \<and> length (trim input) > 2000 \<longrightarrow>
          POST validCode normCode request s =
            (Inr (errorResponse ''Enjoyment must be 2000 characters or less'' 400), s))
     \<and> (\<forall>room membership input.
          findRoomByCode (normCode (req_code request)) s = Some room
          \<and> (dbroom_currentRound room = DECISIONS \<or> dbroom_currentRound room = SUMMARY)
          \<and> findMembership (dbroom_id room) (req_userId request) s = Some membership
          \<and> req_body request = BodyValue (FieldString input)
          \<and> trim input \<noteq> [] \<and> length (trim input) \<le> 2000 \<longrightarrow>
          fst (POST validCode normCode request s) = Inr \<lparr> resp_body = SuccessBody, resp_status = 200 \<rparr>
          \<and> map_option membership_enjoyment
               (findMembership (dbroom_id room) (req_userId request)
                  (snd (POST validCode normCode request s)))
             = Some (Some (trim input))
          \<and> filter (\<lambda>m. membership_id m \<noteq> membership_id membership)
               (db_memberships (snd (POST validCode normCode request s)))
             = filter (\<lambda>m. membership_id m \<noteq> membership_id membership) (db_memberships s))
     \<and> (\<forall>response.
          fst (POST validCode normCode request s) = Inr response \<and> resp_status response = 200 \<longrightarrow>
          (\<exists>room. findRoomByCode (normCode (req_code request)) s = Some room
             \<and> (dbroom_currentRound room = DECISIONS \<or> dbroom_currentRound room = SUMMARY)))"
proof (intro conjI allI impI; (elim conjE)?)
  show "POST validCode normCode request s = (Inr (errorResponse ''Room not found'' 404), s)"
    if "findRoomByCode (normCode (req_code request)) s = None"
    using that assms by (simp add: POST_def Let_def)
next
  fix room
  assume "findRoomByCode (normCode (req_code request)) s = Some room"
    "dbroom_currentRound room \<noteq> DECISIONS" "dbroom_currentRound room \<noteq> SUMMARY"
  then show "POST validCode normCode request s =
      (Inr (errorResponse
         ''Enjoyment can only be shared during the Decisions or Summary round'' 409), s)"
    using assms by (simp add: POST_def Let_def)
next
  fix room
  assume "findRoomByCode (normCode (req_code request)) s = Some room"
    "dbroom_currentRound room = DECISIONS \<or> dbroom_currentRound room = SUMMARY"
    "findMembership (dbroom_id room) (req_userId request) s = None"
  then show "POST validCode normCode request s = (Inr (errorResponse ''Not a member of this room'' 403), s)"
    using assms by (auto simp: POST_def Let_def)
next
  fix room membership input
  assume "findRoomByCode (normCode (req_code request)) s = Some room"
    "dbroom_currentRound room = DECISIONS \<or> dbroom_currentRound room = SUMMARY"
    "findMembership (dbroom_id room) (req_userId request) s = Some membership"
    "req_body request = BodyValue FieldAbsent
       \<or> req_body request = BodyValue (FieldString input) \<and> trim input = []"
  then show "POST validCode normCode request s = (Inr (errorResponse ''Enjoyment is required'' 400), s)"
    using assms by (auto simp: POST_def Let_def)
next
  fix room membership input
  assume "findRoomByCode (normCode (req_code request)) s = Some room"
    "dbroom_currentRound room = DECISIONS \<or> dbroom_currentRound room = SUMMARY"
    "findMembership (dbroom_id room) (req_userId request) s = Some membership"
    "req_body request = BodyValue (FieldString input)" "length (trim input) > 2000"
  then show "POST validCode normCode request s =
      (Inr (errorResponse ''Enjoyment must be 2000 characters or less'' 400), s)"
    using assms by (auto simp: POST_def Let_def)
next
  fix room membership input
  assume room: "findRoomByCode (normCode (req_code request)) s = Some room"
    and round: "dbroom_currentRound room = DECISIONS \<or> dbroom_currentRound room = SUMMARY"
    and member: "findMembership (dbroom_id room) (req_userId request) s = Some membership"
    and body: "req_body request = BodyValue (FieldString input)"
    and ok: "trim input \<noteq> []" "length (trim input) \<le> 2000"
  have run: "POST validCode normCode request s =
      (Inr \<lparr> resp_body = SuccessBody, resp_status = 200 \<rparr>,
       emitPresenceUpdate
         \<lparr> presence_roomId = dbroom_id room, presence_reason = lit ''updated'' \<rparr>
         (updateEnjoyment (membership_id membership) (trim input) s))"
    using ok assms room round member body by (auto simp: POST_def Let_def)
  have emit: "findMembership r u (emitPresenceUpdate p t) = findMembership r u t"
    "db_memberships (emitPresenceUpdate p t) = db_memberships t" for r u p t
    by (simp_all add: emitPresenceUpdate_def findMembership_def)
  show "fst (POST validCode normCode request s) = Inr \<lparr> resp_body = SuccessBody, resp_status = 200 \<rparr>"
    by (simp add: run)
  show "map_option membership_enjoyment
          (findMembership (dbroom_id room) (req_userId request) (snd (POST validCode normCode request s)))
        = Some (Some (trim input))"
    using updateEnjoyment_stores [OF member] by (simp add: run emit)
  show "filter (\<lambda>m. membership_id m \<noteq> membership_id membership)
          (db_memberships (snd (POST validCode normCode request s)))
        = filter (\<lambda>m. membership_id m \<noteq> membership_id membership) (db_memberships s)"
    by (simp add: run emit updateEnjoyment_others)
next
  fix response
  assume "fst (POST validCode normCode request s) = Inr response" "resp_status response = 200"
  then show "\<exists>room. findRoomByCode (normCode (req_code request)) s = Some room
             \<and> (dbroom_currentRound room = DECISIONS \<or> dbroom_currentRound room = SUMMARY)"
    using assms
    by (auto simp: POST_def Let_def errorResponse_def
        split: option.splits if_splits RequestBody.splits JsonField.splits)
qed

theorem enjoyment_POST_gate_witness:
  "req_code exampleRequest \<noteq> [] \<and> exampleValidCode (req_code exampleRequest)
   \<and> fst (POST exampleValidCode exampleNormCode exampleRequest exampleState)
       = Inr \<lparr> resp_body = SuccessBody, resp_status = 200 \<rparr>
   \<and> map_option membership_enjoyment
       (findMembership (lit ''room-1'') (lit ''user-guest'')
          (snd (POST exampleValidCode exampleNormCode exampleRequest exampleState)))
       = Some (Some (lit ''Loved it''))
   \<and> POST exampleValidCode exampleNormCode
       (exampleRequest\<lparr> req_code := lit ''gift-generosity'' \<rparr>) exampleState
       = (Inr (errorResponse
            ''Enjoyment can only be shared during the Decisions or Summary round'' 409),
          exampleState)"
proof -
  have code: "req_code exampleRequest \<noteq> []" "exampleValidCode (req_code exampleRequest)"
    by (simp_all add: exampleRequest_def exampleValidCode_def lit_def)
  have room: "findRoomByCode (exampleNormCode (req_code exampleRequest)) exampleState
      = Some \<lparr> dbroom_id = lit ''room-1'', dbroom_code = lit ''vow-empowerment'',
               dbroom_currentRound = DECISIONS \<rparr>"
    by (simp add: findRoomByCode_def exampleNormCode_def exampleRequest_def exampleState_def)
  have member: "findMembership (lit ''room-1'') (req_userId exampleRequest) exampleState
      = Some exampleGuest"
    by (simp add: findMembership_def exampleRequest_def exampleState_def exampleHost_def
        exampleGuest_def lit_def)
  have body: "req_body exampleRequest = BodyValue (FieldString (lit ''  Loved it  ''))"
    by (simp add: exampleRequest_def)
  have trimmed: "trim (lit ''  Loved it  '') = lit ''Loved it''"
    by (simp add: trim_def lit_def isWhiteSpace_def)
  then have len: "trim (lit ''  Loved it  '') \<noteq> []" "length (trim (lit ''  Loved it  '')) \<le> 2000"
    by (simp_all add: lit_def)
  note gate = enjoyment_POST_gate [where validCode = exampleValidCode
      and normCode = exampleNormCode and request = exampleRequest and s = exampleState, OF code]
  from gate have "\<forall>room membership input.
          findRoomByCode (exampleNormCode (req_code exampleRequest)) exampleState = Some room
          \<and> (dbroom_currentRound room = DECISIONS \<or> dbroom_currentRound room = SUMMARY)
          \<and> findMembership (dbroom_id room) (req_userId exampleRequest) exampleState
              = Some membership
          \<and> req_body exampleRequest = BodyValue (FieldString input)
          \<and> trim input \<noteq> [] \<and> length (trim input) \<le> 2000 \<longrightarrow>
          fst (POST exampleValidCode exampleNormCode exampleRequest exampleState)
            = Inr \<lparr> resp_body = SuccessBody, resp_status = 200 \<rparr>
          \<and> map_option membership_enjoyment
               (findMembership (dbroom_id room) (req_userId exampleRequest)
                  (snd (POST exampleValidCode exampleNormCode exampleRequest exampleState)))
             = Some (Some (trim input))
          \<and> filter (\<lambda>m. membership_id m \<noteq> membership_id membership)
               (db_memberships (snd (POST exampleValidCode exampleNormCode exampleRequest
                  exampleState)))
             = filter (\<lambda>m. membership_id m \<noteq> membership_id membership)
                 (db_memberships exampleState)"
    by blast
  from this [rule_format, of _ exampleGuest "lit ''  Loved it  ''"] room member body len
  have ok: "fst (POST exampleValidCode exampleNormCode exampleRequest exampleState)
       = Inr \<lparr> resp_body = SuccessBody, resp_status = 200 \<rparr>
     \<and> map_option membership_enjoyment
       (findMembership (lit ''room-1'') (req_userId exampleRequest)
          (snd (POST exampleValidCode exampleNormCode exampleRequest exampleState)))
       = Some (Some (trim (lit ''  Loved it  '')))"
    by simp
  have early: "POST exampleValidCode exampleNormCode
       (exampleRequest\<lparr> req_code := lit ''gift-generosity'' \<rparr>) exampleState
       = (Inr (errorResponse
            ''Enjoyment can only be shared during the Decisions or Summary round'' 409),
          exampleState)"
    by (simp add: POST_def Let_def findRoomByCode_def exampleNormCode_def exampleValidCode_def
        exampleRequest_def exampleState_def lit_def)
  from ok trimmed code early show ?thesis
    by (simp add: exampleRequest_def)
qed

section \<open>Theorems: commitments of a member\<close>

lemma memberCommitmentStep_append:
  "giving (memberCommitmentStep m claim acc)
     = giving acc @ giving (memberCommitmentStep m claim noCommitments)"
  "receiving (memberCommitmentStep m claim acc)
     = receiving acc @ receiving (memberCommitmentStep m claim noCommitments)"
  by (simp_all add: memberCommitmentStep_def Let_def pushGivingEntry_def pushReceivingEntry_def
      noCommitments_def split: option.splits)

lemma fold_memberCommitmentStep:
  "giving (fold (memberCommitmentStep m) claims acc)
     = giving acc @ concat (map (\<lambda>c. giving (memberCommitmentStep m c noCommitments)) claims)"
  "receiving (fold (memberCommitmentStep m) claims acc)
     = receiving acc @ concat (map (\<lambda>c. receiving (memberCommitmentStep m c noCommitments)) claims)"
proof (induction claims arbitrary: acc)
  case Nil
  { case 1 show ?case by simp }
  { case 2 show ?case by simp }
next
  case (Cons c claims)
  { case 1 show ?case
      using Cons.IH(1) [of "memberCommitmentStep m c acc"]
      by (simp add: memberCommitmentStep_append(1) [of m c acc]) }
  { case 2 show ?case
      using Cons.IH(2) [of "memberCommitmentStep m c acc"]
      by (simp add: memberCommitmentStep_append(2) [of m c acc]) }
qed

lemma collectMemberCommitments_lists:
  "giving (fst (collectMemberCommitments roomId m s))
     = concat (map (\<lambda>c. giving (memberCommitmentStep m c noCommitments))
         (fst (findMemberClaims roomId m s)))"
  "receiving (fst (collectMemberCommitments roomId m s))
     = concat (map (\<lambda>c. receiving (memberCommitmentStep m c noCommitments))
         (fst (findMemberClaims roomId m s)))"
  by (simp_all add: collectMemberCommitments_def split_beta fold_memberCommitmentStep
      flip: noCommitments_def) (simp_all add: noCommitments_def)

lemma set_findMemberClaims:
  "set (fst (findMemberClaims roomId m s))
     = {x \<in> includeRelations s ` set (db_claims s). memberClaimWhere roomId m x}"
  by (auto simp: findMemberClaims_def)

lemma includeRelations_claim [simp]: "cwr_claim (includeRelations s c) = c"
  by (simp add: includeRelations_def)

lemma step_offer_giving:
  "cwr_offer x = Some offer \<Longrightarrow>
     commitmentEntry RoleGiving (cwr_claim x) ItemOffer offer (row_claimer (cwr_claim x))
       \<in> set (giving (memberCommitmentStep (membership_id (iwa_author offer)) x noCommitments))"
  by (simp add: memberCommitmentStep_def Let_def pushGivingEntry_def pushReceivingEntry_def
      noCommitments_def commitmentEntry_def split: option.splits)

lemma step_offer_receiving:
  "cwr_offer x = Some offer \<Longrightarrow>
     commitmentEntry RoleReceiving (cwr_claim x) ItemOffer offer (iwa_author offer)
       \<in> set (receiving
           (memberCommitmentStep (membership_id (row_claimer (cwr_claim x))) x noCommitments))"
  by (simp add: memberCommitmentStep_def Let_def pushGivingEntry_def pushReceivingEntry_def
      noCommitments_def commitmentEntry_def split: option.splits)

lemma step_desire_giving:
  "cwr_desire x = Some desire \<Longrightarrow>
     commitmentEntry RoleGiving (cwr_claim x) ItemDesire desire (iwa_author desire)
       \<in> set (giving
           (memberCommitmentStep (membership_id (row_claimer (cwr_claim x))) x noCommitments))"
  by (simp add: memberCommitmentStep_def Let_def pushGivingEntry_def pushReceivingEntry_def
      noCommitments_def commitmentEntry_def split: option.splits)

lemma step_desire_receiving:
  "cwr_desire x = Some desire \<Longrightarrow>
     commitmentEntry RoleReceiving (cwr_claim x) ItemDesire desire (row_claimer (cwr_claim x))
       \<in> set (receiving
           (memberCommitmentStep (membership_id (iwa_author desire)) x noCommitments))"
  by (simp add: memberCommitmentStep_def Let_def pushGivingEntry_def pushReceivingEntry_def
      noCommitments_def commitmentEntry_def split: option.splits)

lemma step_entries_origin:
  assumes "e \<in> set (giving (memberCommitmentStep m x noCommitments))
             \<union> set (receiving (memberCommitmentStep m x noCommitments))"
  shows "entry_claimId e = row_id (cwr_claim x) \<and> entry_note e = row_note (cwr_claim x)
     \<and> entry_updatedAt e = row_updatedAt (cwr_claim x)
     \<and> (cwr_offer x \<noteq> None \<or> cwr_desire x \<noteq> None)"
  using assms
  by (auto simp: memberCommitmentStep_def Let_def pushGivingEntry_def pushReceivingEntry_def
      noCommitments_def split: option.splits if_splits)

section \<open>Theorems: host summary\<close>

lemma summaryStep_commitments:
  "commitments (summaryStep x acc) = commitments acc @ commitments (summaryStep x noCounts)"
  by (simp add: summaryStep_def Let_def countCommitment_def noCounts_def split: option.splits)

lemma fold_summaryStep_commitments:
  "commitments (fold summaryStep xs acc)
     = commitments acc @ concat (map (\<lambda>x. commitments (summaryStep x noCounts)) xs)"
proof (induction xs arbitrary: acc)
  case Nil
  show ?case by simp
next
  case (Cons x xs)
  show ?case
    using Cons.IH [of "summaryStep x acc"]
    by (simp add: summaryStep_commitments [of x acc])
qed

lemma findRoomForSummary_found:
  assumes "find (\<lambda>room. dbroom_id room = roomId) (db_rooms s) = Some room"
  shows "\<exists>r. findRoomForSummary roomId s = (Some r, s) \<and> rfs_claims r = acceptedClaims roomId s
           \<and> rfs_memberships r = filter (\<lambda>m. membership_roomId m = roomId) (db_memberships s)
           \<and> rfs_offers r = filter (\<lambda>offer. iwa_roomId offer = roomId) (db_offers s)
           \<and> rfs_desires r = filter (\<lambda>desire. iwa_roomId desire = roomId) (db_desires s)"
proof -
  from assms have "dbroom_id room = roomId"
    by (auto simp: find_Some_iff)
  with assms show ?thesis
    by (simp add: findRoomForSummary_def acceptedClaims_def)
qed

lemma collectAllCommitments_commitments:
  assumes "find (\<lambda>room. dbroom_id room = roomId) (db_rooms s) = Some room"
  shows "hs_commitments (fst (collectAllCommitments roomId s))
     = concat (map (\<lambda>x. commitments (summaryStep x noCounts)) (acceptedClaims roomId s))"
proof -
  from findRoomForSummary_found [OF assms] obtain r
    where r: "findRoomForSummary roomId s = (Some r, s)"
      and c: "rfs_claims r = acceptedClaims roomId s"
    by blast
  have "hs_commitments (summarizeRoom r)
      = commitments (fold summaryStep (rfs_claims r) noCounts)"
    by (simp add: summarizeRoom_def Let_def noCounts_def)
  also have "\<dots> = concat (map (\<lambda>x. commitments (summaryStep x noCounts)) (rfs_claims r))"
    by (simp add: fold_summaryStep_commitments) (simp add: noCounts_def)
  finally show ?thesis
    by (simp add: collectAllCommitments_def r c)
qed

lemma collectAllCommitments_no_room:
  assumes "find (\<lambda>room. dbroom_id room = roomId) (db_rooms s) = None"
  shows "collectAllCommitments roomId s = (emptySummary, s)"
  using assms by (simp add: collectAllCommitments_def findRoomForSummary_def)

lemma summaryStep_offer_info:
  "cwr_offer x = Some offer \<Longrightarrow>
     commitmentInfo (cwr_claim x) ItemOffer offer (iwa_author offer) (row_claimer (cwr_claim x))
       \<in> set (commitments (summaryStep x noCounts))"
  by (simp add: summaryStep_def Let_def countCommitment_def noCounts_def commitmentInfo_def
      split: option.splits)

lemma summaryStep_desire_info:
  "cwr_desire x = Some desire \<Longrightarrow>
     commitmentInfo (cwr_claim x) ItemDesire desire (row_claimer (cwr_claim x)) (iwa_author desire)
       \<in> set (commitments (summaryStep x noCounts))"
  by (simp add: summaryStep_def Let_def countCommitment_def noCounts_def commitmentInfo_def
      split: option.splits)

lemma summaryStep_info_origin:
  assumes "i \<in> set (commitments (summaryStep x noCounts))"
  shows "(\<exists>offer. cwr_offer x = Some offer
            \<and> i = commitmentInfo (cwr_claim x) ItemOffer offer (iwa_author offer)
                    (row_claimer (cwr_claim x)))
       \<or> (\<exists>desire. cwr_desire x = Some desire
            \<and> i = commitmentInfo (cwr_claim x) ItemDesire desire (row_claimer (cwr_claim x))
                    (iwa_author desire))"
  using assms
  by (auto simp: summaryStep_def Let_def countCommitment_def noCounts_def commitmentInfo_def
      split: option.splits)

lemma summaryStep_length:
  "length (commitments (summaryStep x noCounts))
     = (if cwr_offer x = None then 0 else 1) + (if cwr_desire x = None then 0 else 1)"
  by (simp add: summaryStep_def Let_def countCommitment_def noCounts_def split: option.splits)

lemma summaryStep_unresolved:
  "cwr_offer x = None \<Longrightarrow> cwr_desire x = None \<Longrightarrow> summaryStep x acc = acc"
  by (simp add: summaryStep_def)

lemma memberCommitmentStep_unresolved:
  "cwr_offer x = None \<Longrightarrow> cwr_desire x = None \<Longrightarrow> memberCommitmentStep m x acc = acc"
  by (simp add: memberCommitmentStep_def)

lemma includeRelations_claims_update [simp]:
  "includeRelations (s\<lparr> db_claims := cs \<rparr>) = includeRelations s"
  by (intro ext) (simp add: includeRelations_def split: option.splits)

lemma acceptedClaims_in:
  "claim \<in> set (db_claims s) \<Longrightarrow> row_roomId claim = roomId \<Longrightarrow> row_status claim = ACCEPTED \<Longrightarrow>
     includeRelations s claim \<in> set (acceptedClaims roomId s)"
  by (simp add: acceptedClaims_def)

lemma acceptedClaims_origin:
  "x \<in> set (acceptedClaims roomId s) \<Longrightarrow>
     \<exists>claim \<in> set (db_claims s). x = includeRelations s claim
        \<and> row_roomId claim = roomId \<and> row_status claim = ACCEPTED"
  by (auto simp: acceptedClaims_def)

section \<open>Theorems: commitment derivation\<close>

lemma findMemberClaims_in:
  assumes "claim \<in> set (db_claims s)" "row_roomId claim = roomId" "row_status claim = ACCEPTED"
    and "membership_id (row_claimer claim) = m
         \<or> (\<exists>offer. cwr_offer (includeRelations s claim) = Some offer
               \<and> membership_id (iwa_author offer) = m)
         \<or> (\<exists>desire. cwr_desire (includeRelations s claim) = Some desire
               \<and> membership_id (iwa_author desire) = m)"
  shows "includeRelations s claim \<in> set (fst (findMemberClaims roomId m s))"
proof -
  have "memberClaimWhere roomId m (includeRelations s claim)"
    using assms by (auto simp: memberClaimWhere_def)
  with assms(1) show ?thesis
    by (simp add: set_findMemberClaims)
qed

lemma member_entries_collected:
  assumes "x \<in> set (fst (findMemberClaims roomId m s))"
  shows "set (giving (memberCommitmentStep m x noCommitments))
           \<subseteq> set (giving (fst (collectMemberCommitments roomId m s)))"
    and "set (receiving (memberCommitmentStep m x noCommitments))
           \<subseteq> set (receiving (fst (collectMemberCommitments roomId m s)))"
  using assms by (auto simp: collectMemberCommitments_lists)

lemma member_entries_origin:
  assumes "e \<in> set (giving (fst (collectMemberCommitments roomId m s)))
             \<union> set (receiving (fst (collectMemberCommitments roomId m s)))"
  shows "\<exists>c \<in> set (db_claims s). row_status c = ACCEPTED \<and> row_roomId c = roomId
           \<and> entry_claimId e = row_id c \<and> entry_note e = row_note c
           \<and> entry_updatedAt e = row_updatedAt c"
proof -
  from assms obtain x where x: "x \<in> set (fst (findMemberClaims roomId m s))"
    and e: "e \<in> set (giving (memberCommitmentStep m x noCommitments))
              \<union> set (receiving (memberCommitmentStep m x noCommitments))"
    by (auto simp: collectMemberCommitments_lists)
  from x obtain c where c: "c \<in> set (db_claims s)" "x = includeRelations s c"
    and w: "memberClaimWhere roomId m x"
    by (auto simp: set_findMemberClaims)
  from step_entries_origin [OF e] c w show ?thesis
    by (auto simp: memberClaimWhere_def)
qed

lemma summary_infos_collected:
  assumes "find (\<lambda>room. dbroom_id room = roomId) (db_rooms s) = Some room"
    and "x \<in> set (acceptedClaims roomId s)"
  shows "set (commitments (summaryStep x noCounts))
           \<subseteq> set (hs_commitments (fst (collectAllCommitments roomId s)))"
  using assms(2) by (auto simp: collectAllCommitments_commitments [OF assms(1)])

lemma summary_infos_origin:
  assumes "i \<in> set (hs_commitments (fst (collectAllCommitments roomId s)))"
  shows "\<exists>c \<in> set (db_claims s). row_status c = ACCEPTED \<and> row_roomId c = roomId
           \<and> ((\<exists>offer. cwr_offer (includeRelations s c) = Some offer
                 \<and> i = commitmentInfo c ItemOffer offer (iwa_author offer) (row_claimer c))
              \<or> (\<exists>desire. cwr_desire (includeRelations s c) = Some desire
                 \<and> i = commitmentInfo c ItemDesire desire (row_claimer c) (iwa_author desire)))"
proof (cases "find (\<lambda>room. dbroom_id room = roomId) (db_rooms s)")
  case None
  with assms show ?thesis
    by (simp add: collectAllCommitments_no_room emptySummary_def)
next
  case (Some room)
  from assms obtain x where x: "x \<in> set (acceptedClaims roomId s)"
    and i: "i \<in> set (commitments (summaryStep x noCounts))"
    by (auto simp: collectAllCommitments_commitments [OF Some])
  from acceptedClaims_origin [OF x] obtain c where c: "c \<in> set (db_claims s)"
    "x = includeRelations s c" "row_roomId c = roomId" "row_status c = ACCEPTED"
    by blast
  from summaryStep_info_origin [OF i] c show ?thesis
    by auto
qed

text \<open>
  C1. Take a claim of the room with status ACCEPTED. If its offer loads, the offer's
  author has a giving entry for it with the claimer as counterpart, the claimer has a
  receiving entry with the author as counterpart, and the host summary of an existing
  room lists the commitment from author to claimer. If its desire loads, the claimer
  has a giving entry with the desire's author as counterpart, the author has a
  receiving entry with the claimer as counterpart, and the host summary lists the
  commitment from claimer to author. Conversely every entry of any member and every
  line of the host summary comes from a claim of the room with status ACCEPTED, so a
  claim with another status contributes nothing.
\<close>

theorem accepted_claims_become_commitments:
  "(claim \<in> set (db_claims s) \<and> row_roomId claim = roomId \<and> row_status claim = ACCEPTED \<longrightarrow>
      (\<forall>offer. cwr_offer (includeRelations s claim) = Some offer \<longrightarrow>
         commitmentEntry RoleGiving claim ItemOffer offer (row_claimer claim)
           \<in> set (giving (fst (collectMemberCommitments roomId
                   (membership_id (iwa_author offer)) s)))
         \<and> commitmentEntry RoleReceiving claim ItemOffer offer (iwa_author offer)
           \<in> set (receiving (fst (collectMemberCommitments roomId
                   (membership_id (row_claimer claim)) s)))
         \<and> (find (\<lambda>room. dbroom_id room = roomId) (db_rooms s) \<noteq> None \<longrightarrow>
              commitmentInfo claim ItemOffer offer (iwa_author offer) (row_claimer claim)
                \<in> set (hs_commitments (fst (collectAllCommitments roomId s)))))
      \<and> (\<forall>desire. cwr_desire (includeRelations s claim) = Some desire \<longrightarrow>
         commitmentEntry RoleGiving claim ItemDesire desire (iwa_author desire)
           \<in> set (giving (fst (collectMemberCommitments roomId
                   (membership_id (row_claimer claim)) s)))
         \<and> commitmentEntry RoleReceiving claim ItemDesire desire (row_claimer claim)
           \<in> set (receiving (fst (collectMemberCommitments roomId
                   (membership_id (iwa_author desire)) s)))
         \<and> (find (\<lambda>room. dbroom_id room = roomId) (db_rooms s) \<noteq> None \<longrightarrow>
              commitmentInfo claim ItemDesire desire (row_claimer claim) (iwa_author desire)
                \<in> set (hs_commitments (fst (collectAllCommitments roomId s))))))
   \<and> (\<forall>m e. e \<in> set (giving (fst (collectMemberCommitments roomId m s)))
               \<union> set (receiving (fst (collectMemberCommitments roomId m s))) \<longrightarrow>
          (\<exists>c \<in> set (db_claims s). row_status c = ACCEPTED \<and> row_roomId c = roomId
             \<and> entry_claimId e = row_id c \<and> entry_note e = row_note c
             \<and> entry_updatedAt e = row_updatedAt c))
   \<and> (\<forall>i. i \<in> set (hs_commitments (fst (collectAllCommitments roomId s))) \<longrightarrow>
          (\<exists>c \<in> set (db_claims s). row_status c = ACCEPTED \<and> row_roomId c = roomId
             \<and> ((\<exists>offer. cwr_offer (includeRelations s c) = Some offer
                   \<and> i = commitmentInfo c ItemOffer offer (iwa_author offer) (row_claimer c))
                \<or> (\<exists>desire. cwr_desire (includeRelations s c) = Some desire
                   \<and> i = commitmentInfo c ItemDesire desire (row_claimer c)
                         (iwa_author desire)))))"
proof (intro conjI allI impI; (elim conjE)?)
  fix offer
  assume c: "claim \<in> set (db_claims s)" "row_roomId claim = roomId" "row_status claim = ACCEPTED"
    and o: "cwr_offer (includeRelations s claim) = Some offer"
  let ?x = "includeRelations s claim"
  have "?x \<in> set (fst (findMemberClaims roomId (membership_id (iwa_author offer)) s))"
    using c o by (intro findMemberClaims_in) auto
  from member_entries_collected(1) [OF this] step_offer_giving [OF o]
  show "commitmentEntry RoleGiving claim ItemOffer offer (row_claimer claim)
      \<in> set (giving (fst (collectMemberCommitments roomId (membership_id (iwa_author offer)) s)))"
    by auto
  have "?x \<in> set (fst (findMemberClaims roomId (membership_id (row_claimer claim)) s))"
    using c by (intro findMemberClaims_in) auto
  from member_entries_collected(2) [OF this] step_offer_receiving [OF o]
  show "commitmentEntry RoleReceiving claim ItemOffer offer (iwa_author offer)
      \<in> set (receiving (fst (collectMemberCommitments roomId
              (membership_id (row_claimer claim)) s)))"
    by auto
  assume "find (\<lambda>room. dbroom_id room = roomId) (db_rooms s) \<noteq> None"
  then obtain room where "find (\<lambda>room. dbroom_id room = roomId) (db_rooms s) = Some room"
    by blast
  from summary_infos_collected [OF this acceptedClaims_in [OF c]] summaryStep_offer_info [OF o]
  show "commitmentInfo claim ItemOffer offer (iwa_author offer) (row_claimer claim)
      \<in> set (hs_commitments (fst (collectAllCommitments roomId s)))"
    by auto
next
  fix desire
  assume c: "claim \<in> set (db_claims s)" "row_roomId claim = roomId" "row_status claim = ACCEPTED"
    and d: "cwr_desire (includeRelations s claim) = Some desire"
  let ?x = "includeRelations s claim"
  have "?x \<in> set (fst (findMemberClaims roomId (membership_id (row_claimer claim)) s))"
    using c by (intro findMemberClaims_in) auto
  from member_entries_collected(1) [OF this] step_desire_giving [OF d]
  show "commitmentEntry RoleGiving claim ItemDesire desire (iwa_author desire)
      \<in> set (giving (fst (collectMemberCommitments roomId (membership_id (row_claimer claim)) s)))"
    by auto
  have "?x \<in> set (fst (findMemberClaims roomId (membership_id (iwa_author desire)) s))"
    using c d by (intro findMemberClaims_in) auto
  from member_entries_collected(2) [OF this] step_desire_receiving [OF d]
  show "commitmentEntry RoleReceiving claim ItemDesire desire (row_claimer claim)
      \<in> set (receiving (fst (collectMemberCommitments roomId
              (membership_id (iwa_author desire)) s)))"
    by auto
  assume "find (\<lambda>room. dbroom_id room = roomId) (db_rooms s) \<noteq> None"
  then obtain room where "find (\<lambda>room. dbroom_id room = roomId) (db_rooms s) = Some room"
    by blast
  from summary_infos_collected [OF this acceptedClaims_in [OF c]] summaryStep_desire_info [OF d]
  show "commitmentInfo claim ItemDesire desire (row_claimer claim) (iwa_author desire)
      \<in> set (hs_commitments (fst (collectAllCommitments roomId s)))"
    by auto
next
  fix m e
  assume "e \<in> set (giving (fst (collectMemberCommitments roomId m s)))
               \<union> set (receiving (fst (collectMemberCommitments roomId m s)))"
  then show "\<exists>c \<in> set (db_claims s). row_status c = ACCEPTED \<and> row_roomId c = roomId
             \<and> entry_claimId e = row_id c \<and> entry_note e = row_note c
             \<and> entry_updatedAt e = row_updatedAt c"
    by (rule member_entries_origin)
next
  fix i
  assume "i \<in> set (hs_commitments (fst (collectAllCommitments roomId s)))"
  then show "\<exists>c \<in> set (db_claims s). row_status c = ACCEPTED \<and> row_roomId c = roomId
             \<and> ((\<exists>offer. cwr_offer (includeRelations s c) = Some offer
                   \<and> i = commitmentInfo c ItemOffer offer (iwa_author offer) (row_claimer c))
                \<or> (\<exists>desire. cwr_desire (includeRelations s c) = Some desire
                   \<and> i = commitmentInfo c ItemDesire desire (row_claimer c)
                         (iwa_author desire)))"
    by (rule summary_infos_origin)
qed

theorem accepted_claims_become_commitments_witness:
  "exampleClaimA \<in> set (db_claims exampleState)
   \<and> row_roomId exampleClaimA = lit ''room-1'' \<and> row_status exampleClaimA = ACCEPTED
   \<and> cwr_offer (includeRelations exampleState exampleClaimA) = Some exampleBreadOffer
   \<and> commitmentEntry RoleGiving exampleClaimA ItemOffer exampleBreadOffer exampleGuest
       \<in> set (giving (fst (collectMemberCommitments (lit ''room-1'') (lit ''m-host'') exampleState)))
   \<and> commitmentEntry RoleReceiving exampleClaimA ItemOffer exampleBreadOffer exampleHost
       \<in> set (receiving
           (fst (collectMemberCommitments (lit ''room-1'') (lit ''m-guest'') exampleState)))
   \<and> commitmentInfo exampleClaimA ItemOffer exampleBreadOffer exampleHost exampleGuest
       \<in> set (hs_commitments (fst (collectAllCommitments (lit ''room-1'') exampleState)))
   \<and> row_status exampleClaimB = DECLINED
   \<and> fst (collectMemberCommitments (lit ''room-1'') (lit ''m-third'') exampleState)
       = \<lparr> giving = [], receiving = [] \<rparr>
   \<and> map entry_counterpartName
       (giving (fst (collectMemberCommitments (lit ''room-1'') (lit ''m-host'') exampleState)))
       = [lit ''Guest User'']"
proof -
  have c: "exampleClaimA \<in> set (db_claims exampleState)"
    "row_roomId exampleClaimA = lit ''room-1''" "row_status exampleClaimA = ACCEPTED"
    by (simp_all add: exampleState_def exampleClaimA_def)
  have o: "cwr_offer (includeRelations exampleState exampleClaimA) = Some exampleBreadOffer"
    by (simp add: includeRelations_def exampleState_def exampleClaimA_def exampleBreadOffer_def)
  have ids: "membership_id (iwa_author exampleBreadOffer) = lit ''m-host''"
    "iwa_author exampleBreadOffer = exampleHost"
    "row_claimer exampleClaimA = exampleGuest"
    "membership_id exampleGuest = lit ''m-guest''"
    by (simp_all add: exampleBreadOffer_def exampleHost_def exampleClaimA_def exampleGuest_def)
  have room: "find (\<lambda>room. dbroom_id room = lit ''room-1'') (db_rooms exampleState) \<noteq> None"
    by (simp add: exampleState_def)
  have declined: "row_status exampleClaimB = DECLINED"
    by (simp add: exampleClaimB_def)
  have third: "fst (collectMemberCommitments (lit ''room-1'') (lit ''m-third'') exampleState)
       = \<lparr> giving = [], receiving = [] \<rparr>"
    by (simp add: collectMemberCommitments_def findMemberClaims_def memberClaimWhere_def
        includeRelations_def memberCommitmentStep_def Let_def exampleState_def exampleClaimA_def
        exampleClaimB_def exampleClaimC_def exampleBreadOffer_def exampleHelpDesire_def
        exampleHost_def exampleGuest_def exampleThird_def lit_def)
  have name: "map entry_counterpartName
       (giving (fst (collectMemberCommitments (lit ''room-1'') (lit ''m-host'') exampleState)))
       = [lit ''Guest User'']"
    by code_simp
  note derivation = accepted_claims_become_commitments [where claim = exampleClaimA
      and s = exampleState and roomId = "lit ''room-1''"]
  from derivation c have "\<forall>offer. cwr_offer (includeRelations exampleState exampleClaimA) = Some offer \<longrightarrow>
         commitmentEntry RoleGiving exampleClaimA ItemOffer offer (row_claimer exampleClaimA)
           \<in> set (giving (fst (collectMemberCommitments (lit ''room-1'')
                   (membership_id (iwa_author offer)) exampleState)))
         \<and> commitmentEntry RoleReceiving exampleClaimA ItemOffer offer (iwa_author offer)
           \<in> set (receiving (fst (collectMemberCommitments (lit ''room-1'')
                   (membership_id (row_claimer exampleClaimA)) exampleState)))
         \<and> (find (\<lambda>room. dbroom_id room = lit ''room-1'') (db_rooms exampleState) \<noteq> None \<longrightarrow>
              commitmentInfo exampleClaimA ItemOffer offer (iwa_author offer)
                  (row_claimer exampleClaimA)
                \<in> set (hs_commitments (fst (collectAllCommitments (lit ''room-1'') exampleState))))"
    by blast
  from this [rule_format, OF o] room ids
  have "commitmentEntry RoleGiving exampleClaimA ItemOffer exampleBreadOffer exampleGuest
       \<in> set (giving (fst (collectMemberCommitments (lit ''room-1'') (lit ''m-host'') exampleState)))
   \<and> commitmentEntry RoleReceiving exampleClaimA ItemOffer exampleBreadOffer exampleHost
       \<in> set (receiving
           (fst (collectMemberCommitments (lit ''room-1'') (lit ''m-guest'') exampleState)))
   \<and> commitmentInfo exampleClaimA ItemOffer exampleBreadOffer exampleHost exampleGuest
       \<in> set (hs_commitments (fst (collectAllCommitments (lit ''room-1'') exampleState)))"
    by simp
  with c o declined third name show ?thesis
    by blast
qed

subsection \<open>Claims whose targets do not load\<close>

lemma unresolvable_iff:
  "unresolvable s claim \<longleftrightarrow>
     (case row_offerId claim of None \<Rightarrow> True
      | Some i \<Rightarrow> i \<notin> iwa_id ` set (db_offers s))
     \<and> (case row_desireId claim of None \<Rightarrow> True
        | Some i \<Rightarrow> i \<notin> iwa_id ` set (db_desires s))"
  by (auto simp: unresolvable_def includeRelations_def find_None_iff split: option.splits)

lemma fold_memberCommitmentStep_resolved:
  "fold (memberCommitmentStep m) xs acc = fold (memberCommitmentStep m) (filter resolved xs) acc"
  by (induction xs arbitrary: acc) (simp_all add: resolved_def memberCommitmentStep_unresolved)

lemma fold_summaryStep_resolved:
  "fold summaryStep xs acc = fold summaryStep (filter resolved xs) acc"
  by (induction xs arbitrary: acc) (simp_all add: resolved_def summaryStep_unresolved)

lemma collectMemberCommitments_resolved:
  "fst (collectMemberCommitments roomId m s)
     = fold (memberCommitmentStep m)
         (sort_key (\<lambda>x. row_updatedAt (cwr_claim x))
            (filter resolved
               (filter (memberClaimWhere roomId m) (map (includeRelations s) (db_claims s)))))
         noCommitments"
proof -
  have "fst (collectMemberCommitments roomId m s)
      = fold (memberCommitmentStep m)
          (filter resolved
             (sort_key (\<lambda>x. row_updatedAt (cwr_claim x))
                (filter (memberClaimWhere roomId m) (map (includeRelations s) (db_claims s)))))
          noCommitments"
    by (simp add: collectMemberCommitments_def findMemberClaims_def noCommitments_def
        fold_memberCommitmentStep_resolved [symmetric])
  then show ?thesis
    by (simp only: filter_sort)
qed

lemma summarizeRoom_resolved:
  "summarizeRoom r = summarizeRoom (r\<lparr> rfs_claims := filter resolved (rfs_claims r) \<rparr>)"
  by (simp add: summarizeRoom_def fold_summaryStep_resolved [symmetric])

lemma collectAllCommitments_resolved:
  "fst (collectAllCommitments roomId s)
     = (case find (\<lambda>room. dbroom_id room = roomId) (db_rooms s) of
          None \<Rightarrow> emptySummary
        | Some room \<Rightarrow>
            summarizeRoom
              \<lparr> rfs_memberships = filter (\<lambda>m. membership_roomId m = roomId) (db_memberships s),
                rfs_offers = filter (\<lambda>offer. iwa_roomId offer = roomId) (db_offers s),
                rfs_desires = filter (\<lambda>desire. iwa_roomId desire = roomId) (db_desires s),
                rfs_claims = filter resolved (acceptedClaims roomId s) \<rparr>)"
proof (cases "find (\<lambda>room. dbroom_id room = roomId) (db_rooms s)")
  case None
  then show ?thesis
    by (simp add: collectAllCommitments_no_room)
next
  case (Some room)
  from findRoomForSummary_found [OF Some] obtain r
    where r: "findRoomForSummary roomId s = (Some r, s)"
      and f: "rfs_claims r = acceptedClaims roomId s"
        "rfs_memberships r = filter (\<lambda>m. membership_roomId m = roomId) (db_memberships s)"
        "rfs_offers r = filter (\<lambda>offer. iwa_roomId offer = roomId) (db_offers s)"
        "rfs_desires r = filter (\<lambda>desire. iwa_roomId desire = roomId) (db_desires s)"
    by blast
  have "r\<lparr> rfs_claims := filter resolved (rfs_claims r) \<rparr>
      = \<lparr> rfs_memberships = filter (\<lambda>m. membership_roomId m = roomId) (db_memberships s),
          rfs_offers = filter (\<lambda>offer. iwa_roomId offer = roomId) (db_offers s),
          rfs_desires = filter (\<lambda>desire. iwa_roomId desire = roomId) (db_desires s),
          rfs_claims = filter resolved (acceptedClaims roomId s) \<rparr>"
    using f by (cases r) simp
  with summarizeRoom_resolved [of r] show ?thesis
    by (simp add: collectAllCommitments_def r Some)
qed

lemma resolved_claims_without:
  assumes "unresolvable s claim"
  shows "filter resolved (filter P (map (includeRelations s) (earlier @ claim # later)))
       = filter resolved (filter P (map (includeRelations s) (earlier @ later)))"
  using assms by (simp add: unresolvable_def resolved_def)

lemma resolved_accepted_without:
  assumes "unresolvable s claim"
  shows "filter resolved (acceptedClaims roomId (s\<lparr> db_claims := earlier @ claim # later \<rparr>))
       = filter resolved (acceptedClaims roomId (s\<lparr> db_claims := earlier @ later \<rparr>))"
  using assms by (simp add: acceptedClaims_def unresolvable_def resolved_def)

text \<open>
  C2. A claim is unresolvable when neither its offer nor its desire loads: each column
  is null or holds an id that no row of the table has. The derivation returns a value
  for every store (its result type has no error alternative), and an unresolvable claim
  is skipped: wherever the claim stands in the claim table, every member's commitments
  and the host summary are what they are without it.
\<close>

theorem unresolvable_claims_are_skipped:
  "(unresolvable s claim \<longleftrightarrow>
      (case row_offerId claim of None \<Rightarrow> True | Some i \<Rightarrow> i \<notin> iwa_id ` set (db_offers s))
      \<and> (case row_desireId claim of None \<Rightarrow> True | Some i \<Rightarrow> i \<notin> iwa_id ` set (db_desires s)))
   \<and> (unresolvable s claim \<longrightarrow>
        fst (collectMemberCommitments roomId m (s\<lparr> db_claims := earlier @ claim # later \<rparr>))
          = fst (collectMemberCommitments roomId m (s\<lparr> db_claims := earlier @ later \<rparr>))
        \<and> fst (collectAllCommitments roomId (s\<lparr> db_claims := earlier @ claim # later \<rparr>))
          = fst (collectAllCommitments roomId (s\<lparr> db_claims := earlier @ later \<rparr>)))"
proof (intro conjI impI)
  show "unresolvable s claim \<longleftrightarrow>
      (case row_offerId claim of None \<Rightarrow> True | Some i \<Rightarrow> i \<notin> iwa_id ` set (db_offers s))
      \<and> (case row_desireId claim of None \<Rightarrow> True | Some i \<Rightarrow> i \<notin> iwa_id ` set (db_desires s))"
    by (rule unresolvable_iff)
next
  assume u: "unresolvable s claim"
  show "fst (collectMemberCommitments roomId m (s\<lparr> db_claims := earlier @ claim # later \<rparr>))
      = fst (collectMemberCommitments roomId m (s\<lparr> db_claims := earlier @ later \<rparr>))"
    using resolved_claims_without [OF u, of "memberClaimWhere roomId m" earlier later]
    by (simp add: collectMemberCommitments_resolved)
  show "fst (collectAllCommitments roomId (s\<lparr> db_claims := earlier @ claim # later \<rparr>))
      = fst (collectAllCommitments roomId (s\<lparr> db_claims := earlier @ later \<rparr>))"
    using resolved_accepted_without [OF u, of roomId earlier later]
    by (simp add: collectAllCommitments_resolved split: option.splits)
qed

theorem unresolvable_claims_are_skipped_witness:
  "unresolvable exampleState exampleClaimC
   \<and> row_offerId exampleClaimC = Some (lit ''offer-gone'')
   \<and> db_claims exampleState = [exampleClaimA, exampleClaimB] @ exampleClaimC # []
   \<and> fst (collectMemberCommitments (lit ''room-1'') (lit ''m-guest'') exampleState)
       = fst (collectMemberCommitments (lit ''room-1'') (lit ''m-guest'')
           (exampleState\<lparr> db_claims := [exampleClaimA, exampleClaimB] \<rparr>))
   \<and> fst (collectAllCommitments (lit ''room-1'') exampleState)
       = fst (collectAllCommitments (lit ''room-1'')
           (exampleState\<lparr> db_claims := [exampleClaimA, exampleClaimB] \<rparr>))
   \<and> map entry_claimId
       (receiving (fst (collectMemberCommitments (lit ''room-1'') (lit ''m-guest'') exampleState)))
       = [lit ''claim-a'']"
proof -
  have u: "unresolvable exampleState exampleClaimC"
    by (simp add: unresolvable_def includeRelations_def exampleState_def exampleClaimC_def
        exampleBreadOffer_def lit_def)
  have col: "row_offerId exampleClaimC = Some (lit ''offer-gone'')"
    by (simp add: exampleClaimC_def)
  have tab: "db_claims exampleState = [exampleClaimA, exampleClaimB] @ exampleClaimC # []"
    by (simp add: exampleState_def)
  then have st: "exampleState\<lparr> db_claims := [exampleClaimA, exampleClaimB] @ exampleClaimC # [] \<rparr>
      = exampleState"
    by (simp add: exampleState_def)
  have ids: "map entry_claimId
       (receiving (fst (collectMemberCommitments (lit ''room-1'') (lit ''m-guest'') exampleState)))
       = [lit ''claim-a'']"
    by code_simp
  note skipped = unresolvable_claims_are_skipped [where s = exampleState
      and claim = exampleClaimC and earlier = "[exampleClaimA, exampleClaimB]" and later = "[]"]
  from skipped u have
    "fst (collectMemberCommitments (lit ''room-1'') (lit ''m-guest'')
        (exampleState\<lparr> db_claims := [exampleClaimA, exampleClaimB] @ exampleClaimC # [] \<rparr>))
       = fst (collectMemberCommitments (lit ''room-1'') (lit ''m-guest'')
           (exampleState\<lparr> db_claims := [exampleClaimA, exampleClaimB] @ [] \<rparr>))"
    "fst (collectAllCommitments (lit ''room-1'')
        (exampleState\<lparr> db_claims := [exampleClaimA, exampleClaimB] @ exampleClaimC # [] \<rparr>))
       = fst (collectAllCommitments (lit ''room-1'')
           (exampleState\<lparr> db_claims := [exampleClaimA, exampleClaimB] @ [] \<rparr>))"
    by blast+
  then have "fst (collectMemberCommitments (lit ''room-1'') (lit ''m-guest'') exampleState)
       = fst (collectMemberCommitments (lit ''room-1'') (lit ''m-guest'')
           (exampleState\<lparr> db_claims := [exampleClaimA, exampleClaimB] \<rparr>))"
    "fst (collectAllCommitments (lit ''room-1'') exampleState)
       = fst (collectAllCommitments (lit ''room-1'')
           (exampleState\<lparr> db_claims := [exampleClaimA, exampleClaimB] \<rparr>))"
    unfolding st by simp_all
  with u col tab ids show ?thesis
    by blast
qed

subsection \<open>Counting commitments\<close>

lemma summaryStep_counts:
  "getOrZero (givingCounts (summaryStep x acc)) k
     = getOrZero (givingCounts acc) k
       + length (filter (\<lambda>i. ci_giverMembershipId i = k) (commitments (summaryStep x noCounts)))"
  "getOrZero (receivingCounts (summaryStep x acc)) k
     = getOrZero (receivingCounts acc) k
       + length (filter (\<lambda>i. ci_receiverMembershipId i = k)
           (commitments (summaryStep x noCounts)))"
  by (simp_all add: summaryStep_def Let_def countCommitment_def noCounts_def getOrZero_def
      split: option.splits)

lemma fold_summaryStep_counts:
  "getOrZero (givingCounts (fold summaryStep xs acc)) k
     = getOrZero (givingCounts acc) k
       + length (filter (\<lambda>i. ci_giverMembershipId i = k)
           (concat (map (\<lambda>x. commitments (summaryStep x noCounts)) xs)))"
  "getOrZero (receivingCounts (fold summaryStep xs acc)) k
     = getOrZero (receivingCounts acc) k
       + length (filter (\<lambda>i. ci_receiverMembershipId i = k)
           (concat (map (\<lambda>x. commitments (summaryStep x noCounts)) xs)))"
proof (induction xs arbitrary: acc)
  case Nil
  { case 1 show ?case by simp }
  { case 2 show ?case by simp }
next
  case (Cons x xs)
  { case 1 show ?case
      using Cons.IH(1) [of "summaryStep x acc"]
      by (simp add: summaryStep_counts(1) [of x acc]) }
  { case 2 show ?case
      using Cons.IH(2) [of "summaryStep x acc"]
      by (simp add: summaryStep_counts(2) [of x acc]) }
qed

lemma participant_counts:
  assumes "p \<in> set (hs_participants (fst (collectAllCommitments roomId s)))"
  shows "p_givingCount p
       = length (filter (\<lambda>i. ci_giverMembershipId i = p_membershipId p)
           (hs_commitments (fst (collectAllCommitments roomId s))))"
    and "p_receivingCount p
       = length (filter (\<lambda>i. ci_receiverMembershipId i = p_membershipId p)
           (hs_commitments (fst (collectAllCommitments roomId s))))"
proof -
  have "p_givingCount p
       = length (filter (\<lambda>i. ci_giverMembershipId i = p_membershipId p)
           (hs_commitments (fst (collectAllCommitments roomId s))))
     \<and> p_receivingCount p
       = length (filter (\<lambda>i. ci_receiverMembershipId i = p_membershipId p)
           (hs_commitments (fst (collectAllCommitments roomId s))))"
  proof (cases "find (\<lambda>room. dbroom_id room = roomId) (db_rooms s)")
    case None
    with assms show ?thesis
      by (simp add: collectAllCommitments_no_room emptySummary_def)
  next
    case (Some room)
    from findRoomForSummary_found [OF Some] obtain r
      where r: "findRoomForSummary roomId s = (Some r, s)"
        and c: "rfs_claims r = acceptedClaims roomId s"
      by blast
    let ?acc = "fold summaryStep (acceptedClaims roomId s) noCounts"
    have parts: "hs_participants (fst (collectAllCommitments roomId s))
        = map (toParticipant ?acc) (rfs_memberships r)"
      by (simp add: collectAllCommitments_def r summarizeRoom_def Let_def c noCounts_def)
    from assms obtain m where p: "p = toParticipant ?acc m"
      unfolding parts by auto
    have zero: "getOrZero (givingCounts noCounts) k = 0"
      "getOrZero (receivingCounts noCounts) k = 0" for k
      by (simp_all add: noCounts_def getOrZero_def)
    show ?thesis
      by (simp add: p toParticipant_def fold_summaryStep_counts zero
          collectAllCommitments_commitments [OF Some])
  qed
  then show "p_givingCount p
       = length (filter (\<lambda>i. ci_giverMembershipId i = p_membershipId p)
           (hs_commitments (fst (collectAllCommitments roomId s))))"
    and "p_receivingCount p
       = length (filter (\<lambda>i. ci_receiverMembershipId i = p_membershipId p)
           (hs_commitments (fst (collectAllCommitments roomId s))))"
    by simp_all
qed

lemma total_commitments:
  "stats_totalCommitments (hs_stats (fst (collectAllCommitments roomId s)))
     = length (hs_commitments (fst (collectAllCommitments roomId s)))"
  by (simp add: collectAllCommitments_def findRoomForSummary_def summarizeRoom_def Let_def
      emptySummary_def split: option.splits)

lemma acceptedClaims_split:
  assumes "row_roomId claim = roomId" "row_status claim = ACCEPTED"
  shows "acceptedClaims roomId (s\<lparr> db_claims := earlier @ claim # later \<rparr>)
       = acceptedClaims roomId (s\<lparr> db_claims := earlier \<rparr>)
         @ includeRelations s claim # acceptedClaims roomId (s\<lparr> db_claims := later \<rparr>)"
    and "acceptedClaims roomId (s\<lparr> db_claims := earlier @ later \<rparr>)
       = acceptedClaims roomId (s\<lparr> db_claims := earlier \<rparr>)
         @ acceptedClaims roomId (s\<lparr> db_claims := later \<rparr>)"
  using assms by (simp_all add: acceptedClaims_def)

lemma summaryStep_both:
  assumes "cwr_offer x = Some offer" "cwr_desire x = Some desire"
  shows "commitments (summaryStep x noCounts)
       = [commitmentInfo (cwr_claim x) ItemOffer offer (iwa_author offer) (row_claimer (cwr_claim x)),
          commitmentInfo (cwr_claim x) ItemDesire desire (row_claimer (cwr_claim x))
            (iwa_author desire)]"
  using assms
  by (simp add: summaryStep_def Let_def countCommitment_def noCounts_def commitmentInfo_def)

text \<open>
  C10. The derivation does not treat the two targets of a claim as exclusive. For every
  accepted claim of an existing room whose offer and whose desire both load, the loop
  runs both branches: alone in the claim table the claim gives two lines of the host
  summary and a commitment total of 2; in any claim table it adds exactly two lines;
  the claimer gets a receiving entry for the offer and a giving entry for the desire,
  both for this one claim; and as each participant's giving and receiving counts are
  the numbers of lines naming them, the claim is counted once on each line.
\<close>

theorem claim_with_both_targets_counts_twice:
  "(row_roomId claim = roomId \<and> row_status claim = ACCEPTED
    \<and> cwr_offer (includeRelations s claim) = Some offer
    \<and> cwr_desire (includeRelations s claim) = Some desire
    \<and> find (\<lambda>room. dbroom_id room = roomId) (db_rooms s) \<noteq> None \<longrightarrow>
      hs_commitments (fst (collectAllCommitments roomId (s\<lparr> db_claims := [claim] \<rparr>)))
        = [commitmentInfo claim ItemOffer offer (iwa_author offer) (row_claimer claim),
           commitmentInfo claim ItemDesire desire (row_claimer claim) (iwa_author desire)]
      \<and> stats_totalCommitments
          (hs_stats (fst (collectAllCommitments roomId (s\<lparr> db_claims := [claim] \<rparr>)))) = 2
      \<and> length (hs_commitments
          (fst (collectAllCommitments roomId (s\<lparr> db_claims := earlier @ claim # later \<rparr>))))
        = length (hs_commitments
            (fst (collectAllCommitments roomId (s\<lparr> db_claims := earlier @ later \<rparr>)))) + 2
      \<and> commitmentEntry RoleReceiving claim ItemOffer offer (iwa_author offer)
          \<in> set (receiving (fst (collectMemberCommitments roomId
                  (membership_id (row_claimer claim))
                  (s\<lparr> db_claims := earlier @ claim # later \<rparr>))))
      \<and> commitmentEntry RoleGiving claim ItemDesire desire (iwa_author desire)
          \<in> set (giving (fst (collectMemberCommitments roomId
                  (membership_id (row_claimer claim))
                  (s\<lparr> db_claims := earlier @ claim # later \<rparr>)))))
   \<and> (\<forall>p \<in> set (hs_participants (fst (collectAllCommitments roomId s))).
        p_givingCount p
          = length (filter (\<lambda>i. ci_giverMembershipId i = p_membershipId p)
              (hs_commitments (fst (collectAllCommitments roomId s))))
        \<and> p_receivingCount p
          = length (filter (\<lambda>i. ci_receiverMembershipId i = p_membershipId p)
              (hs_commitments (fst (collectAllCommitments roomId s)))))"
proof (intro conjI impI ballI; (elim conjE)?)
  assume c: "row_roomId claim = roomId" "row_status claim = ACCEPTED"
    and o: "cwr_offer (includeRelations s claim) = Some offer"
    and d: "cwr_desire (includeRelations s claim) = Some desire"
    and "find (\<lambda>room. dbroom_id room = roomId) (db_rooms s) \<noteq> None"
  then obtain room where room: "find (\<lambda>room. dbroom_id room = roomId) (db_rooms s) = Some room"
    by blast
  have room': "find (\<lambda>room. dbroom_id room = roomId) (db_rooms (s\<lparr> db_claims := cs \<rparr>)) = Some room"
    for cs
    using room by simp
  have both: "commitments (summaryStep (includeRelations s claim) noCounts)
      = [commitmentInfo claim ItemOffer offer (iwa_author offer) (row_claimer claim),
         commitmentInfo claim ItemDesire desire (row_claimer claim) (iwa_author desire)]"
    using summaryStep_both [OF o d] by simp
  have one: "acceptedClaims roomId (s\<lparr> db_claims := [claim] \<rparr>) = [includeRelations s claim]"
    using c by (simp add: acceptedClaims_def)
  show alone: "hs_commitments (fst (collectAllCommitments roomId (s\<lparr> db_claims := [claim] \<rparr>)))
      = [commitmentInfo claim ItemOffer offer (iwa_author offer) (row_claimer claim),
         commitmentInfo claim ItemDesire desire (row_claimer claim) (iwa_author desire)]"
    by (simp add: collectAllCommitments_commitments [OF room'] one both)
  show "stats_totalCommitments
      (hs_stats (fst (collectAllCommitments roomId (s\<lparr> db_claims := [claim] \<rparr>)))) = 2"
    by (simp add: total_commitments alone)
  show "length (hs_commitments
          (fst (collectAllCommitments roomId (s\<lparr> db_claims := earlier @ claim # later \<rparr>))))
        = length (hs_commitments
            (fst (collectAllCommitments roomId (s\<lparr> db_claims := earlier @ later \<rparr>)))) + 2"
    by (simp add: collectAllCommitments_commitments [OF room'] acceptedClaims_split [OF c] both)
  let ?s = "s\<lparr> db_claims := earlier @ claim # later \<rparr>"
  have inc: "includeRelations ?s claim = includeRelations s claim"
    by simp
  have "includeRelations ?s claim
      \<in> set (fst (findMemberClaims roomId (membership_id (row_claimer claim)) ?s))"
    using c by (intro findMemberClaims_in) simp_all
  then have fetched: "includeRelations s claim
      \<in> set (fst (findMemberClaims roomId (membership_id (row_claimer claim)) ?s))"
    by (simp only: inc)
  from member_entries_collected(2) [OF fetched] step_offer_receiving [OF o]
  show "commitmentEntry RoleReceiving claim ItemOffer offer (iwa_author offer)
      \<in> set (receiving (fst (collectMemberCommitments roomId
              (membership_id (row_claimer claim)) ?s)))"
    by auto
  from member_entries_collected(1) [OF fetched] step_desire_giving [OF d]
  show "commitmentEntry RoleGiving claim ItemDesire desire (iwa_author desire)
      \<in> set (giving (fst (collectMemberCommitments roomId
              (membership_id (row_claimer claim)) ?s)))"
    by auto
next
  fix p
  assume "p \<in> set (hs_participants (fst (collectAllCommitments roomId s)))"
  then show "p_givingCount p
          = length (filter (\<lambda>i. ci_giverMembershipId i = p_membershipId p)
              (hs_commitments (fst (collectAllCommitments roomId s))))"
    and "p_receivingCount p
          = length (filter (\<lambda>i. ci_receiverMembershipId i = p_membershipId p)
              (hs_commitments (fst (collectAllCommitments roomId s))))"
    by (rule participant_counts)+
qed

theorem claim_with_both_targets_counts_twice_witness:
  "row_roomId exampleClaimD = lit ''room-1'' \<and> row_status exampleClaimD = ACCEPTED
   \<and> row_offerId exampleClaimD = Some (lit ''offer-1'')
   \<and> row_desireId exampleClaimD = Some (lit ''desire-1'')
   \<and> cwr_offer (includeRelations exampleState exampleClaimD) = Some exampleBreadOffer
   \<and> cwr_desire (includeRelations exampleState exampleClaimD) = Some exampleHelpDesire
   \<and> hs_commitments
       (fst (collectAllCommitments (lit ''room-1'') (exampleState\<lparr> db_claims := [exampleClaimD] \<rparr>)))
     = [commitmentInfo exampleClaimD ItemOffer exampleBreadOffer exampleHost exampleThird,
        commitmentInfo exampleClaimD ItemDesire exampleHelpDesire exampleThird exampleGuest]
   \<and> stats_totalCommitments
       (hs_stats (fst (collectAllCommitments (lit ''room-1'')
          (exampleState\<lparr> db_claims := [exampleClaimD] \<rparr>)))) = 2
   \<and> map (\<lambda>p. (p_name p, p_givingCount p, p_receivingCount p))
       (hs_participants (fst (collectAllCommitments (lit ''room-1'')
          (exampleState\<lparr> db_claims := [exampleClaimD] \<rparr>))))
     = [(lit ''Host'', 1, 0), (lit ''Guest User'', 0, 1), (lit ''Cleo'', 1, 1)]"
proof -
  have c: "row_roomId exampleClaimD = lit ''room-1''" "row_status exampleClaimD = ACCEPTED"
    "row_offerId exampleClaimD = Some (lit ''offer-1'')"
    "row_desireId exampleClaimD = Some (lit ''desire-1'')"
    by (simp_all add: exampleClaimD_def)
  have o: "cwr_offer (includeRelations exampleState exampleClaimD) = Some exampleBreadOffer"
    and d: "cwr_desire (includeRelations exampleState exampleClaimD) = Some exampleHelpDesire"
    by (simp_all add: includeRelations_def exampleState_def exampleClaimD_def
        exampleBreadOffer_def exampleHelpDesire_def)
  have room: "find (\<lambda>room. dbroom_id room = lit ''room-1'') (db_rooms exampleState) \<noteq> None"
    by (simp add: exampleState_def)
  have ids: "iwa_author exampleBreadOffer = exampleHost"
    "iwa_author exampleHelpDesire = exampleGuest" "row_claimer exampleClaimD = exampleThird"
    by (simp_all add: exampleBreadOffer_def exampleHelpDesire_def exampleClaimD_def)
  have counts: "map (\<lambda>p. (p_name p, p_givingCount p, p_receivingCount p))
       (hs_participants (fst (collectAllCommitments (lit ''room-1'')
          (exampleState\<lparr> db_claims := [exampleClaimD] \<rparr>))))
     = [(lit ''Host'', 1, 0), (lit ''Guest User'', 0, 1), (lit ''Cleo'', 1, 1)]"
    by code_simp
  note twice = claim_with_both_targets_counts_twice [where claim = exampleClaimD
      and roomId = "lit ''room-1''" and s = exampleState and offer = exampleBreadOffer
      and desire = exampleHelpDesire and earlier = "[]" and later = "[]"]
  from twice c o d room have
    "hs_commitments
       (fst (collectAllCommitments (lit ''room-1'') (exampleState\<lparr> db_claims := [exampleClaimD] \<rparr>)))
     = [commitmentInfo exampleClaimD ItemOffer exampleBreadOffer
          (iwa_author exampleBreadOffer) (row_claimer exampleClaimD),
        commitmentInfo exampleClaimD ItemDesire exampleHelpDesire
          (row_claimer exampleClaimD) (iwa_author exampleHelpDesire)]
     \<and> stats_totalCommitments
       (hs_stats (fst (collectAllCommitments (lit ''room-1'')
          (exampleState\<lparr> db_claims := [exampleClaimD] \<rparr>)))) = 2"
    by blast
  with c o d counts show ?thesis
    by (simp add: ids)
qed

subsection \<open>The results as functions of the rows\<close>























end
